theory Spec2Isabelle
  imports
    Main
    "HOL-Library.Word"
    "HOL-Library.Char_ord"
    "HOL-Library.List_Lexorder"
    "HOL-Library.Multiset"
    "HOL-Library.AList"
begin

unbundle bit_operations_syntax

chapter \<open>The remote snapshotter and its stargz filesystem\<close>

text \<open>
  A shallow embedding of the stargz FUSE layer (\<^verbatim>\<open>stargz/fs.go\<close>) and of the overlay
  snapshotter built on it (\<^verbatim>\<open>snapshot.go\<close>). Go strings are byte strings and are
  modelled as \<^typ>\<open>string\<close>; their order \<open><\<close> is the bytewise lexicographic order, which is
  the order of \<^typ>\<open>char list\<close> given by the list order over the character codes.
\<close>

section \<open>Part I: definitions\<close>

subsection \<open>Constants of \<^verbatim>\<open>stargz/fs.go\<close>\<close>

definition PrefetchLandmark :: string where
  "PrefetchLandmark = ''.prefetch.landmark''"

definition whiteoutPrefix :: string where
  "whiteoutPrefix = ''.wh.''"

definition whiteoutOpaqueDir :: string where
  "whiteoutOpaqueDir = whiteoutPrefix @ whiteoutPrefix @ ''.opq''"

definition opaqueXattr :: string where
  "opaqueXattr = ''trusted.overlay.opaque''"

definition opaqueXattrValue :: string where
  "opaqueXattrValue = ''y''"

definition stateDirName :: string where
  "stateDirName = ''.stargz-snapshotter''"

definition defaultLayerValidInterval :: int where
  "defaultLayerValidInterval = 60"

text \<open>\<^verbatim>\<open>strings.HasPrefix(s, prefix)\<close>.\<close>

definition HasPrefix :: "string \<Rightarrow> string \<Rightarrow> bool" where
  "HasPrefix s p = (take (length p) s = p)"

subsection \<open>File modes\<close>

text \<open>
  \<^verbatim>\<open>os.FileMode\<close> is a \<^verbatim>\<open>uint32\<close>. The bits below are those of Go's package \<^verbatim>\<open>os\<close>
  (\<^verbatim>\<open>ModeDir = 1<<31\<close>, ...), and the \<^verbatim>\<open>S_*\<close> values those of \<^verbatim>\<open>syscall\<close> on Linux.
\<close>

type_synonym uint32 = "32 word"
type_synonym uint64 = "64 word"

definition ModeDir :: uint32 where "ModeDir = push_bit 31 1"
definition ModeSymlink :: uint32 where "ModeSymlink = push_bit 27 1"
definition ModeDevice :: uint32 where "ModeDevice = push_bit 26 1"
definition ModeNamedPipe :: uint32 where "ModeNamedPipe = push_bit 25 1"
definition ModeSocket :: uint32 where "ModeSocket = push_bit 24 1"
definition ModeSetuid :: uint32 where "ModeSetuid = push_bit 23 1"
definition ModeSetgid :: uint32 where "ModeSetgid = push_bit 22 1"
definition ModeCharDevice :: uint32 where "ModeCharDevice = push_bit 21 1"
definition ModeSticky :: uint32 where "ModeSticky = push_bit 20 1"
definition ModeIrregular :: uint32 where "ModeIrregular = push_bit 19 1"

definition ModeType :: uint32 where
  "ModeType = ModeDir OR ModeSymlink OR ModeNamedPipe OR ModeSocket OR ModeDevice
     OR ModeCharDevice OR ModeIrregular"

definition S_IFBLK :: uint32 where "S_IFBLK = 0x6000"
definition S_IFCHR :: uint32 where "S_IFCHR = 0x2000"
definition S_IFDIR :: uint32 where "S_IFDIR = 0x4000"
definition S_IFIFO :: uint32 where "S_IFIFO = 0x1000"
definition S_IFLNK :: uint32 where "S_IFLNK = 0xa000"
definition S_IFSOCK :: uint32 where "S_IFSOCK = 0xc000"
definition S_IFREG :: uint32 where "S_IFREG = 0x8000"
definition S_ISGID :: uint32 where "S_ISGID = 0x400"
definition S_ISUID :: uint32 where "S_ISUID = 0x800"
definition S_ISVTX :: uint32 where "S_ISVTX = 0x200"

text \<open>\<^verbatim>\<open>fileModeToSystemMode\<close>: the permission bits, the file type, then the three flags.\<close>

definition fileModeToSystemMode :: "uint32 \<Rightarrow> uint32" where
  "fileModeToSystemMode m =
     (let sm = m AND 0x1ff;
          t = m AND ModeType;
          sm = (if t = ModeDevice then sm OR S_IFBLK
                else if t = (ModeDevice OR ModeCharDevice) then sm OR S_IFCHR
                else if t = ModeDir then sm OR S_IFDIR
                else if t = ModeNamedPipe then sm OR S_IFIFO
                else if t = ModeSymlink then sm OR S_IFLNK
                else if t = ModeSocket then sm OR S_IFSOCK
                else sm OR S_IFREG);
          sm = (if m AND ModeSetgid \<noteq> 0 then sm OR S_ISGID else sm);
          sm = (if m AND ModeSetuid \<noteq> 0 then sm OR S_ISUID else sm);
          sm = (if m AND ModeSticky \<noteq> 0 then sm OR S_ISVTX else sm)
      in sm)"

subsection \<open>TOC entries and FUSE nodes\<close>

text \<open>
  The fields of \<^verbatim>\<open>stargz.TOCEntry\<close> the filesystem reads. \<open>FileMode\<close> is what
  \<^verbatim>\<open>e.Stat().Mode()\<close> returns. \<open>children\<close> is the entry's \<^verbatim>\<open>map[string]*TOCEntry\<close>,
  as an association list: \<^verbatim>\<open>LookupChild\<close> is the lookup, and \<^verbatim>\<open>ForeachChild\<close> visits the
  pairs in the list's order (Go leaves the order of a map open, so every order of the list
  is a possible run). \<open>addr\<close> is the address of the entry, which \<^verbatim>\<open>inodeOfEnt\<close> turns into
  the inode number.
\<close>

datatype TOCEntry = TOCEntry
  (Name: string)
  (FileMode: uint32)
  (Uid: int)
  (Gid: int)
  (Xattrs: "(string \<times> string) list")
  (children: "(string \<times> TOCEntry) list")
  (addr: uint64)

definition LookupChild :: "TOCEntry \<Rightarrow> string \<Rightarrow> TOCEntry option" where
  "LookupChild ent baseName = map_of (children ent) baseName"

definition inodeOfEnt :: "TOCEntry \<Rightarrow> uint64" where
  "inodeOfEnt ent = addr ent"

datatype Status = OK | EPERM | ENOENT | EIO | ENOATTR

text \<open>\<^verbatim>\<open>fuse.Context\<close>: the caller's \<^verbatim>\<open>Owner.Uid\<close> and \<^verbatim>\<open>Owner.Gid\<close>.\<close>

record Context =
  Owner_Uid :: uint32
  Owner_Gid :: uint32

record DirEntry =
  DirEntry_Mode :: uint32
  DirEntry_Name :: string
  DirEntry_Ino :: uint64

text \<open>
  The state directory \<^verbatim>\<open>state\<close> and its file \<^verbatim>\<open>statFile\<close>; \<open>state_addr\<close> is the address
  of the node, from which \<^verbatim>\<open>ino()\<close> is computed.
\<close>

record state =
  state_addr :: uint64

definition state_mode :: "state \<Rightarrow> uint32" where
  "state_mode st = 0x140"

definition state_ino :: "state \<Rightarrow> uint64" where
  "state_ino st = state_addr st"

definition statFile_mode :: uint32 where
  "statFile_mode = 0x100"

text \<open>
  The \<^verbatim>\<open>node\<close> of a TOC entry. \<open>root\<close> is the mountpoint; \<open>opaque\<close> is documented in the
  source as "true if this node is an overlayfs opaque directory".
\<close>

record node =
  e :: TOCEntry
  s :: state
  root :: string
  opaque :: bool

text \<open>The root node as \<^verbatim>\<open>Mount\<close> builds it: \<open>opaque\<close> keeps Go's zero value.\<close>

definition Mount_root_node :: "TOCEntry \<Rightarrow> state \<Rightarrow> string \<Rightarrow> node" where
  "Mount_root_node rootEntry st mountpoint =
     \<lparr>e = rootEntry, s = st, root = mountpoint, opaque = False\<rparr>"

subsection \<open>\<^verbatim>\<open>Access\<close>\<close>

text \<open>
  \<^verbatim>\<open>node.Access\<close>. In Go \<^verbatim>\<open><<\<close> and \<^verbatim>\<open>&\<close> have the same precedence and associate to
  the left, so \<^verbatim>\<open>mode<<shift&sm\<close> is \<^verbatim>\<open>(mode<<shift)&sm\<close>. \<^verbatim>\<open>uint32(n.e.Uid)\<close> truncates
  the entry's \<^verbatim>\<open>int\<close>.
\<close>

definition node_Access :: "node \<Rightarrow> uint32 \<Rightarrow> Context \<Rightarrow> Status" where
  "node_Access n mode ctx =
     (if Owner_Uid ctx = 0 then OK
      else if mode = 0 then OK
      else
        let shift = (if word_of_int (Uid (e n)) = Owner_Uid ctx then 6
                     else if word_of_int (Gid (e n)) = Owner_Gid ctx then 3
                     else (0::nat))
        in if push_bit shift mode AND fileModeToSystemMode (FileMode (e n)) \<noteq> 0 then OK
           else EPERM)"

text \<open>
  \<^verbatim>\<open>state.Access\<close> and \<^verbatim>\<open>statFile.Access\<close>. By the same precedence rule
  \<^verbatim>\<open>mode&s.mode()>>6\<close> is \<^verbatim>\<open>(mode&s.mode())>>6\<close>.
\<close>

definition state_Access :: "state \<Rightarrow> uint32 \<Rightarrow> Context \<Rightarrow> Status" where
  "state_Access st mode ctx =
     (if mode = 0 then OK
      else if Owner_Uid ctx = 0 \<and> drop_bit 6 (mode AND state_mode st) \<noteq> 0 then OK
      else EPERM)"

definition statFile_Access :: "uint32 \<Rightarrow> Context \<Rightarrow> Status" where
  "statFile_Access mode ctx =
     (if mode = 0 then OK
      else if Owner_Uid ctx = 0 \<and> drop_bit 6 (mode AND statFile_mode) \<noteq> 0 then OK
      else EPERM)"

text \<open>
  The vocabulary of the permission check: the shift that the caller's identity selects, and
  the three permission bits of the entry's system mode at that shift.
\<close>

definition access_shift :: "TOCEntry \<Rightarrow> Context \<Rightarrow> nat" where
  "access_shift ent ctx =
     (if word_of_int (Uid ent) = Owner_Uid ctx then 6
      else if word_of_int (Gid ent) = Owner_Gid ctx then 3
      else 0)"

definition perm_field :: "TOCEntry \<Rightarrow> Context \<Rightarrow> uint32" where
  "perm_field ent ctx =
     drop_bit (access_shift ent ctx) (fileModeToSystemMode (FileMode ent)) AND 7"

subsection \<open>\<^verbatim>\<open>OpenDir\<close>\<close>

text \<open>
  The three variables the callback of \<^verbatim>\<open>ForeachChild\<close> writes: the slice \<^verbatim>\<open>ents\<close>, the map
  \<^verbatim>\<open>whiteouts\<close> (an association list, written with the map update) and the map
  \<^verbatim>\<open>normalEnts\<close>, whose values are only ever \<^verbatim>\<open>true\<close>: a set of names.
\<close>

record OpenDir_vars =
  ents :: "DirEntry list"
  whiteouts :: "(string \<times> TOCEntry) list"
  normalEnts :: "string set"

text \<open>The body of the callback, for one child. It always returns \<^verbatim>\<open>true\<close> (go on).\<close>

definition OpenDir_child :: "node \<Rightarrow> string \<times> TOCEntry \<Rightarrow> OpenDir_vars \<Rightarrow> OpenDir_vars" where
  "OpenDir_child n c v =
     (case c of (baseName, ent) \<Rightarrow>
        if Name (e n) = [] \<and> baseName = PrefetchLandmark then v
        else if HasPrefix baseName whiteoutPrefix then
          (if baseName = whiteoutOpaqueDir then v
           else v\<lparr>whiteouts := AList.update baseName ent (whiteouts v)\<rparr>)
        else v\<lparr>normalEnts := insert baseName (normalEnts v),
               ents := ents v @
                 [\<lparr>DirEntry_Mode = fileModeToSystemMode (FileMode ent),
                   DirEntry_Name = baseName,
                   DirEntry_Ino = inodeOfEnt ent\<rparr>]\<rparr>)"

text \<open>The body of the loop over \<^verbatim>\<open>whiteouts\<close>, for one whiteout.\<close>

definition OpenDir_whiteout :: "string set \<Rightarrow> string \<times> TOCEntry \<Rightarrow> DirEntry list \<Rightarrow> DirEntry list" where
  "OpenDir_whiteout normal c es =
     (case c of (w, ent) \<Rightarrow>
        if drop (length whiteoutPrefix) w \<notin> normal then
          es @ [\<lparr>DirEntry_Mode = S_IFCHR,
                  DirEntry_Name = drop (length whiteoutPrefix) w,
                  DirEntry_Ino = inodeOfEnt ent\<rparr>]
        else es)"

text \<open>
  \<^verbatim>\<open>node.OpenDir\<close>. The name of the root entry is the empty string. \<^verbatim>\<open>sort.Slice\<close> orders
  the entries by name and is not stable; the model sorts with a stable sort, one of the
  orders Go may produce, and the theorems below speak of the entries as a multiset and of
  the order of the names only.
\<close>

definition OpenDir :: "node \<Rightarrow> DirEntry list \<times> Status" where
  "OpenDir n =
     (let v = fold (OpenDir_child n) (children (e n))
                \<lparr>ents = [], whiteouts = [], normalEnts = {}\<rparr>;
          es = fold (OpenDir_whiteout (normalEnts v)) (whiteouts v) (ents v);
          es = (if Name (e n) = [] then
                  es @ [\<lparr>DirEntry_Mode = S_IFDIR OR state_mode (s n),
                          DirEntry_Name = stateDirName,
                          DirEntry_Ino = state_ino (s n)\<rparr>]
                else es)
      in (sort_key DirEntry_Name es, OK))"

subsection \<open>The listing in the words of the specification\<close>

text \<open>The children that are shown as they are, and the children that are whiteouts.\<close>

definition shown_children :: "node \<Rightarrow> (string \<times> TOCEntry) list" where
  "shown_children n =
     filter (\<lambda>c. \<not> (Name (e n) = [] \<and> fst c = PrefetchLandmark)
                  \<and> \<not> HasPrefix (fst c) whiteoutPrefix)
       (children (e n))"

definition whiteout_children :: "node \<Rightarrow> (string \<times> TOCEntry) list" where
  "whiteout_children n =
     filter (\<lambda>c. HasPrefix (fst c) whiteoutPrefix \<and> fst c \<noteq> whiteoutOpaqueDir)
       (children (e n))"

definition child_entry :: "string \<times> TOCEntry \<Rightarrow> DirEntry" where
  "child_entry c =
     \<lparr>DirEntry_Mode = fileModeToSystemMode (FileMode (snd c)),
      DirEntry_Name = fst c,
      DirEntry_Ino = inodeOfEnt (snd c)\<rparr>"

text \<open>The synthetic character device that stands for the whiteout \<open>.wh.X\<close>: it is named \<open>X\<close>.\<close>

definition chardev_entry :: "string \<times> TOCEntry \<Rightarrow> DirEntry" where
  "chardev_entry c =
     \<lparr>DirEntry_Mode = S_IFCHR,
      DirEntry_Name = drop (length whiteoutPrefix) (fst c),
      DirEntry_Ino = inodeOfEnt (snd c)\<rparr>"

definition state_entries :: "node \<Rightarrow> DirEntry list" where
  "state_entries n =
     (if Name (e n) = [] then
        [\<lparr>DirEntry_Mode = S_IFDIR OR state_mode (s n),
          DirEntry_Name = stateDirName,
          DirEntry_Ino = state_ino (s n)\<rparr>]
      else [])"

text \<open>
  The listing as the specification words it: a whiteout \<open>.wh.X\<close> yields its character
  device when no sibling named \<open>X\<close> exists, a sibling being any child of the directory.
\<close>

definition listing_as_stated :: "node \<Rightarrow> DirEntry list" where
  "listing_as_stated n =
     map child_entry (shown_children n)
     @ map chardev_entry
         (filter (\<lambda>c. drop (length whiteoutPrefix) (fst c) \<notin> fst ` set (children (e n)))
            (whiteout_children n))
     @ state_entries n"

text \<open>
  The listing with the one change the source needs: a whiteout \<open>.wh.X\<close> yields its character
  device when no \<^emph>\<open>shown\<close> sibling is named \<open>X\<close>.
\<close>

definition listing :: "node \<Rightarrow> DirEntry list" where
  "listing n =
     map child_entry (shown_children n)
     @ map chardev_entry
         (filter (\<lambda>c. drop (length whiteoutPrefix) (fst c) \<notin> fst ` set (shown_children n))
            (whiteout_children n))
     @ state_entries n"

subsection \<open>\<^verbatim>\<open>Lookup\<close> and the extended attributes\<close>

text \<open>The kinds of node the filesystem hands to go-fuse.\<close>

datatype inode = TOCNode node | WhiteoutNode TOCEntry | StateNode state

text \<open>
  \<^verbatim>\<open>node.Lookup\<close>, after its first lines: those return the child that go-fuse has cached
  for the name, which is the node an earlier run of the lines modelled here created (a node
  is never written after its creation). The attributes written to \<^verbatim>\<open>out\<close> are not modelled;
  \<^verbatim>\<open>entryToAttr\<close>, \<^verbatim>\<open>entryToWhAttr\<close> and \<^verbatim>\<open>state.attr\<close> all return \<^verbatim>\<open>fuse.OK\<close>.
\<close>

definition Lookup :: "node \<Rightarrow> string \<Rightarrow> inode option \<times> Status" where
  "Lookup n name =
     (if Name (e n) = [] \<and> name = PrefetchLandmark then (None, ENOENT)
      else if HasPrefix name whiteoutPrefix then (None, ENOENT)
      else if Name (e n) = [] \<and> name = stateDirName then (Some (StateNode (s n)), OK)
      else
        case LookupChild (e n) name of
          None \<Rightarrow>
            (case LookupChild (e n) (whiteoutPrefix @ name) of
               Some wh \<Rightarrow> (Some (WhiteoutNode wh), OK)
             | None \<Rightarrow> (None, ENOENT))
        | Some ce \<Rightarrow>
            (Some (TOCNode \<lparr>e = ce, s = s n, root = root n,
                             opaque = (LookupChild ce whiteoutOpaqueDir \<noteq> None)\<rparr>), OK))"

text \<open>\<^verbatim>\<open>node.GetXAttr\<close>; \<^verbatim>\<open>nil\<close> is \<open>None\<close>.\<close>

definition GetXAttr :: "node \<Rightarrow> string \<Rightarrow> string option \<times> Status" where
  "GetXAttr n attribute =
     (if attribute = opaqueXattr \<and> opaque n then (Some opaqueXattrValue, OK)
      else case map_of (Xattrs (e n)) attribute of
             Some v \<Rightarrow> (Some v, OK)
           | None \<Rightarrow> (None, ENOATTR))"

text \<open>\<^verbatim>\<open>node.ListXAttr\<close>; the keys of \<^verbatim>\<open>Xattrs\<close> come in the order of the association list.\<close>

definition ListXAttr :: "node \<Rightarrow> string list \<times> Status" where
  "ListXAttr n =
     ((if opaque n then [opaqueXattr] else []) @ map fst (Xattrs (e n)), OK)"

text \<open>
  The TOC nodes of a mounted layer: the root node that \<^verbatim>\<open>Mount\<close> builds, and every node
  that \<^verbatim>\<open>Lookup\<close> creates below a node of the layer.
\<close>

inductive_set layer_nodes :: "TOCEntry \<Rightarrow> state \<Rightarrow> string \<Rightarrow> node set"
  for rootEntry :: TOCEntry and st :: state and mountpoint :: string where
  layer_root: "Mount_root_node rootEntry st mountpoint \<in> layer_nodes rootEntry st mountpoint"
| layer_child: "n \<in> layer_nodes rootEntry st mountpoint
      \<Longrightarrow> Lookup n name = (Some (TOCNode c), OK)
      \<Longrightarrow> c \<in> layer_nodes rootEntry st mountpoint"

subsection \<open>Errors, time and HTTP\<close>

text \<open>
  Go errors. The kinds are the sentinel values of containerd's \<^verbatim>\<open>errdefs\<close>; an error made
  by \<^verbatim>\<open>fmt.Errorf\<close> or \<^verbatim>\<open>errors.New\<close> has the kind \<open>ErrUnknown\<close>. \<^verbatim>\<open>errors.Wrap\<close> keeps the
  kind and prefixes the message. Messages are kept without their formatted arguments.
\<close>

datatype errkind =
  ErrUnknown | ErrInvalidArgument | ErrNotFound | ErrAlreadyExists | ErrFailedPrecondition
  | ErrUnavailable

datatype error = Error errkind string

definition errors_New :: "string \<Rightarrow> error" where
  "errors_New msg = Error ErrUnknown msg"

definition Wrap :: "error \<Rightarrow> string \<Rightarrow> error" where
  "Wrap err msg = (case err of Error k m \<Rightarrow> Error k (msg @ '': '' @ m))"

definition kind_of :: "error \<Rightarrow> errkind" where
  "kind_of err = (case err of Error k m \<Rightarrow> k)"

text \<open>
  \<^verbatim>\<open>int64\<close> values are 64-bit words read as signed. A \<^verbatim>\<open>time.Time\<close> is a reading of the
  monotonic clock in nanoseconds; a \<^verbatim>\<open>time.Duration\<close> is an \<^verbatim>\<open>int64\<close> of nanoseconds, and
  \<^verbatim>\<open>Time.Sub\<close> saturates at the ends of its range.
\<close>

type_synonym int64 = "64 word"
type_synonym Time = int
type_synonym Duration = int64

definition Second :: Duration where
  "Second = 1000000000"

definition Time_Sub :: "Time \<Rightarrow> Time \<Rightarrow> Duration" where
  "Time_Sub t u =
     (let d = t - u
      in if d < - (2 ^ 63) then word_of_int (- (2 ^ 63))
         else if 2 ^ 63 - 1 < d then word_of_int (2 ^ 63 - 1)
         else word_of_int d)"

text \<open>
  An HTTP request as the source builds it: method, URL, headers, the \<^verbatim>\<open>Close\<close> flag, and the
  timeout of the context attached with \<^verbatim>\<open>WithContext\<close>. Of a response the source reads the
  status code (never negative in \<^verbatim>\<open>net/http\<close>) and the headers.
\<close>

record Request =
  Method :: string
  URL :: string
  Header :: "(string \<times> string) list"
  Close :: bool
  Timeout :: "Duration option"

record Response =
  StatusCode :: nat
  ResponseHeader :: "(string \<times> string) list"

text \<open>\<^verbatim>\<open>Header.Get\<close>: the value of the key, or the empty string.\<close>

definition Header_Get :: "(string \<times> string) list \<Rightarrow> string \<Rightarrow> string" where
  "Header_Get h k = (case map_of h k of Some v \<Rightarrow> v | None \<Rightarrow> [])"

text \<open>\<^verbatim>\<open>Header.Set\<close>.\<close>

definition Header_Set :: "(string \<times> string) list \<Rightarrow> string \<Rightarrow> string \<Rightarrow> (string \<times> string) list" where
  "Header_Set h k v = AList.update k v h"

text \<open>
  An \<^verbatim>\<open>http.RoundTripper\<close> is named by a number; what a round trip returns is decided by
  the network. The record \<open>env\<close> collects what the source calls outside the repository, as
  functions of the state \<open>'w\<close> of the outside world where they have effects:
  \<^item> \<open>RoundTrip\<close>: \<^verbatim>\<open>tr.RoundTrip(req)\<close>;
  \<^item> \<open>url_Parse_ok\<close>: whether \<^verbatim>\<open>http.NewRequest\<close> can parse the URL;
  \<^item> \<open>ParseDockerRef\<close>: \<^verbatim>\<open>docker.ParseDockerRef\<close>, with \<^verbatim>\<open>docker.Domain\<close> and \<^verbatim>\<open>docker.Path\<close>
    of its result;
  \<^item> \<open>regexp_Match\<close>: \<^verbatim>\<open>regexp.Match(pattern, b)\<close>, an error when the pattern does not compile;
  \<^item> \<open>name_ParseReference\<close>: \<^verbatim>\<open>name.ParseReference\<close>, the flag telling whether the option
    \<^verbatim>\<open>name.Insecure\<close> is passed;
  \<^item> \<open>Keychain_Resolve\<close> and \<open>transport_New\<close>: \<^verbatim>\<open>authn.DefaultKeychain.Resolve\<close> and
    \<^verbatim>\<open>transport.New\<close>;
  \<^item> \<open>NewDirectoryCache\<close>: \<^verbatim>\<open>cache.NewDirectoryCache\<close>, which may fail.
\<close>

type_synonym transport = nat
type_synonym Authenticator = nat

record Named =
  Domain :: string
  Path :: string

record Reference =
  Reference_Name :: string
  Reference_Insecure :: bool

record 'w env =
  RoundTrip :: "transport \<Rightarrow> Request \<Rightarrow> 'w \<Rightarrow> (error + Response) \<times> 'w"
  url_Parse_ok :: "string \<Rightarrow> bool"
  ParseDockerRef :: "string \<Rightarrow> error + Named"
  regexp_Match :: "string \<Rightarrow> string \<Rightarrow> error + bool"
  name_ParseReference :: "string \<Rightarrow> bool \<Rightarrow> error + Reference"
  Keychain_Resolve :: "Reference \<Rightarrow> error + Authenticator"
  transport_New :: "Reference \<Rightarrow> Authenticator \<Rightarrow> 'w \<Rightarrow> (error + transport) \<times> 'w"
  NewDirectoryCache :: "string \<Rightarrow> int \<Rightarrow> error option"

text \<open>\<^verbatim>\<open>http.NewRequest(method, url, nil)\<close>; the methods the source passes are valid.\<close>

definition NewRequest :: "'w env \<Rightarrow> string \<Rightarrow> string \<Rightarrow> error + Request" where
  "NewRequest env method url =
     (if url_Parse_ok env url then
        Inr \<lparr>Method = method, URL = url, Header = [], Close = False, Timeout = None\<rparr>
      else Inl (errors_New ''parse''))"

subsection \<open>The filesystem and its configuration\<close>

record Config =
  LRUCacheEntry :: int
  HTTPCacheChunkSize :: int64
  HTTPCacheType :: string
  FSCacheType :: string
  LayerValidInterval :: int64
  Insecure :: "string list"
  NoPrefetch :: bool
  Debug :: bool

datatype BlobCache = MemoryCache | DirectoryCache string int

record connection =
  url :: string
  tr :: transport
  lastCheck :: Time

text \<open>
  The \<^verbatim>\<open>filesystem\<close>. The two mutexes and the background task manager, which only order
  concurrent calls, are left out.
\<close>

record filesystem =
  httpCacheChunkSize :: int64
  httpCache :: BlobCache
  fsCache :: BlobCache
  layerValidInterval :: Duration
  noprefetch :: bool
  insecure :: "string list"
  pullTransports :: "string \<rightharpoonup> transport"
  conn :: "string \<rightharpoonup> connection"
  debug :: bool

text \<open>
  \<^verbatim>\<open>filepath.Join\<close>: the non-empty elements, separated by a slash. Go also cleans the result
  (\<^verbatim>\<open>filepath.Clean\<close>); the paths joined here are a clean root directory and plain names,
  which cleaning leaves as they are.
\<close>

fun filepath_Join :: "string list \<Rightarrow> string" where
  "filepath_Join [] = []"
| "filepath_Join (x # xs) =
     (if x = [] then filepath_Join xs
      else if filepath_Join xs = [] then x
      else x @ ''/'' @ filepath_Join xs)"

definition memoryCacheType :: string where
  "memoryCacheType = ''memory''"

definition getCache :: "'w env \<Rightarrow> string \<Rightarrow> string \<Rightarrow> int \<Rightarrow> error + BlobCache" where
  "getCache env ctype dir maxEntry =
     (if ctype = memoryCacheType then Inr MemoryCache
      else case NewDirectoryCache env dir maxEntry of
             Some err \<Rightarrow> Inl err
           | None \<Rightarrow> Inr (DirectoryCache dir maxEntry))"

definition NewFilesystem :: "'w env \<Rightarrow> string \<Rightarrow> Config \<Rightarrow> error + filesystem" where
  "NewFilesystem env rootdir config =
     (let chunkSize = (if HTTPCacheChunkSize config = 0 then 50000
                       else HTTPCacheChunkSize config);
          interval = LayerValidInterval config;
          interval = (if interval = 0 then word_of_int defaultLayerValidInterval
                      else if interval <s 0 then 0
                      else interval);
          maxEntry = (if LRUCacheEntry config = 0 then 5000 else LRUCacheEntry config)
      in case getCache env (HTTPCacheType config) (filepath_Join [rootdir, ''httpcache'']) maxEntry of
           Inl err \<Rightarrow> Inl err
         | Inr hc \<Rightarrow>
             (case getCache env (FSCacheType config) (filepath_Join [rootdir, ''fscache'']) maxEntry of
                Inl err \<Rightarrow> Inl err
              | Inr fc \<Rightarrow>
                  Inr \<lparr>httpCacheChunkSize = chunkSize,
                       httpCache = hc,
                       fsCache = fc,
                       layerValidInterval = interval * Second,
                       noprefetch = NoPrefetch config,
                       insecure = Insecure config,
                       pullTransports = Map.empty,
                       conn = Map.empty,
                       debug = Debug config\<rparr>))"

subsection \<open>\<^verbatim>\<open>Check\<close>\<close>

text \<open>The request that \<^verbatim>\<open>Check\<close> and \<^verbatim>\<open>checkAndRedirect\<close> make of a fresh \<^verbatim>\<open>GET\<close> request.\<close>

definition range_probe :: "Request \<Rightarrow> Request" where
  "range_probe req =
     req\<lparr>Timeout := Some (30 * Second),
         Close := False,
         Header := Header_Set (Header req) ''Range'' ''bytes=0-1''\<rparr>"

text \<open>
  \<^verbatim>\<open>filesystem.Check\<close> at the time \<open>now\<close>. The result is the error (\<open>None\<close> for \<^verbatim>\<open>nil\<close>), the
  filesystem with its connection map as the call leaves it, and the outside world. The
  connection record is shared through a pointer, so the assignment to \<^verbatim>\<open>c.lastCheck\<close> is
  an update of the map.
\<close>

definition Check :: "'w env \<Rightarrow> filesystem \<Rightarrow> Time \<Rightarrow> string \<Rightarrow> 'w \<Rightarrow> error option \<times> filesystem \<times> 'w" where
  "Check env fs now mountpoint w =
     (case conn fs mountpoint of
        None \<Rightarrow> (Some (errors_New ''connection not regisiterd''), fs, w)
      | Some c \<Rightarrow>
          if Time_Sub now (lastCheck c) <s layerValidInterval fs then (None, fs, w)
          else
            let fs' = fs\<lparr>conn := (conn fs)(mountpoint \<mapsto> c\<lparr>lastCheck := now\<rparr>)\<rparr>
            in case NewRequest env ''GET'' (url c) of
                 Inl err \<Rightarrow> (Some err, fs', w)
               | Inr req \<Rightarrow>
                   (case RoundTrip env (tr c) (range_probe req) w of
                      (Inl err, w') \<Rightarrow> (Some err, fs', w')
                    | (Inr res, w') \<Rightarrow>
                        if StatusCode res \<noteq> 200 \<and> StatusCode res \<noteq> 206 then
                          (Some (errors_New ''unexpected status code''), fs', w')
                        else (None, fs', w')))"

subsection \<open>\<^verbatim>\<open>resolve\<close>\<close>

text \<open>\<^verbatim>\<open>isInsecure\<close>: the error of \<^verbatim>\<open>regexp.Match\<close> is dropped, so a bad pattern matches nothing.\<close>

fun isInsecure_loop :: "'w env \<Rightarrow> string list \<Rightarrow> string \<Rightarrow> bool" where
  "isInsecure_loop env [] host = False"
| "isInsecure_loop env (i # rest) host =
     (case regexp_Match env i host of
        Inr True \<Rightarrow> True
      | _ \<Rightarrow> isInsecure_loop env rest host)"

definition isInsecure :: "'w env \<Rightarrow> filesystem \<Rightarrow> string \<Rightarrow> bool" where
  "isInsecure env fs host = isInsecure_loop env (insecure fs) host"

definition refreshTransport :: "'w env \<Rightarrow> Reference \<Rightarrow> 'w \<Rightarrow> (error + transport) \<times> 'w" where
  "refreshTransport env ref w =
     (case Keychain_Resolve env ref of
        Inl err \<Rightarrow> (Inl (errors_New ''failed to resolve the reference''), w)
      | Inr auth \<Rightarrow> transport_New env ref auth w)"

definition checkAndRedirect :: "'w env \<Rightarrow> string \<Rightarrow> transport \<Rightarrow> 'w \<Rightarrow> (error + string) \<times> 'w" where
  "checkAndRedirect env u t w =
     (case NewRequest env ''GET'' u of
        Inl err \<Rightarrow> (Inl (errors_New ''failed to request to the registry''), w)
      | Inr req \<Rightarrow>
          (case RoundTrip env t (range_probe req) w of
             (Inl err, w') \<Rightarrow> (Inl (errors_New ''failed to redirect''), w')
           | (Inr res, w') \<Rightarrow>
               if 400 \<le> StatusCode res then (Inl (errors_New ''failed to redirect''), w')
               else
                 let redir = Header_Get (ResponseHeader res) ''Location''
                 in if redir \<noteq> [] \<and> StatusCode res div 100 = 3 then (Inr redir, w')
                    else (Inr u, w')))"

text \<open>
  The second half of \<^verbatim>\<open>resolve\<close>, from the lookup in the transport cache on: it is given the
  blob URL and the parsed reference name.
\<close>

definition resolve_transport ::
  "'w env \<Rightarrow> filesystem \<Rightarrow> string \<Rightarrow> Reference \<Rightarrow> 'w
     \<Rightarrow> (error + string \<times> transport) \<times> filesystem \<times> 'w" where
  "resolve_transport env fs u nameref w =
     (let refresh = (\<lambda>w.
            case refreshTransport env nameref w of
              (Inl err, w1) \<Rightarrow> (Inl err, fs, w1)
            | (Inr t, w1) \<Rightarrow>
                (case checkAndRedirect env u t w1 of
                   (Inl err, w2) \<Rightarrow> (Inl err, fs, w2)
                 | (Inr u', w2) \<Rightarrow>
                     (Inr (u', t),
                      fs\<lparr>pullTransports := (pullTransports fs)(Reference_Name nameref \<mapsto> t)\<rparr>,
                      w2)))
      in case pullTransports fs (Reference_Name nameref) of
           Some t \<Rightarrow>
             (case checkAndRedirect env u t w of
                (Inr u', w1) \<Rightarrow> (Inr (u', t), fs, w1)
              | (Inl err, w1) \<Rightarrow> refresh w1)
         | None \<Rightarrow> refresh w)"

text \<open>\<^verbatim>\<open>filesystem.resolve\<close>.\<close>

definition resolve ::
  "'w env \<Rightarrow> filesystem \<Rightarrow> string \<Rightarrow> string \<Rightarrow> 'w
     \<Rightarrow> (error + string \<times> transport) \<times> filesystem \<times> 'w" where
  "resolve env fs ref digest w =
     (case ParseDockerRef env ref of
        Inl err \<Rightarrow> (Inl err, fs, w)
      | Inr named \<Rightarrow>
          let scheme = ''https'';
              host = Domain named;
              path = Path named;
              host = (if host = ''docker.io'' then ''registry-1.docker.io'' else host);
              ins = isInsecure env fs host;
              scheme = (if ins then ''http'' else scheme);
              u = scheme @ ''://'' @ host @ ''/v2/'' @ path @ ''/blobs/'' @ digest
          in case name_ParseReference env (host @ ''/'' @ path) ins of
               Inl err \<Rightarrow> (Inl (errors_New ''failed to parse reference''), fs, w)
             | Inr nameref \<Rightarrow> resolve_transport env fs u nameref w)"

subsection \<open>The snapshotter: data\<close>

definition targetSnapshotLabel :: string where
  "targetSnapshotLabel = ''containerd.io/snapshot.ref''"

definition filesystemIDLabel :: string where
  "filesystemIDLabel = ''containerd.io/snapshot/filesystem.id''"

text \<open>
  \<^verbatim>\<open>snapshots.Kind\<close>, \<^verbatim>\<open>snapshots.Info\<close> (without its two time stamps), \<^verbatim>\<open>snapshots.Usage\<close>,
  \<^verbatim>\<open>storage.Snapshot\<close> and \<^verbatim>\<open>mount.Mount\<close>. A nil map of labels and an empty one read alike,
  and the source writes to the labels only after making the map.
\<close>

datatype Kind = KindUnknown | KindView | KindActive | KindCommitted

record Info =
  Info_Kind :: Kind
  Info_Name :: string
  Info_Parent :: string
  Info_Labels :: "string \<rightharpoonup> string"

record Usage =
  Inodes :: int64
  Size :: int64

record Snapshot =
  Snapshot_Kind :: Kind
  Snapshot_ID :: string
  Snapshot_ParentIDs :: "string list"

record Mount =
  Mount_Type :: string
  Mount_Source :: string
  Mount_Options :: "string list"

text \<open>A \<^verbatim>\<open>snapshots.Opt\<close> is a function on \<^verbatim>\<open>*Info\<close> that may fail.\<close>

type_synonym Opt = "Info \<Rightarrow> error + Info"

definition WithLabels :: "(string \<rightharpoonup> string) \<Rightarrow> Opt" where
  "WithLabels labels = (\<lambda>info. Inr (info\<lparr>Info_Labels := labels\<rparr>))"

definition zero_Info :: Info where
  "zero_Info = \<lparr>Info_Kind = KindUnknown, Info_Name = [], Info_Parent = [],
                Info_Labels = Map.empty\<rparr>"

definition zero_Usage :: Usage where
  "zero_Usage = \<lparr>Inodes = 0, Size = 0\<rparr>"

text \<open>The loop \<^verbatim>\<open>for _, opt := range opts { if err := opt(&base) ... }\<close>.\<close>

fun apply_opts :: "Opt list \<Rightarrow> Info \<Rightarrow> error + Info" where
  "apply_opts [] base = Inr base"
| "apply_opts (opt # opts) base =
     (case opt base of Inl err \<Rightarrow> Inl err | Inr b \<Rightarrow> apply_opts opts b)"

text \<open>
  What the snapshotter calls outside the repository.

  \<open>MetaStore\<close> is containerd's package \<^verbatim>\<open>storage\<close> over a database of state \<open>'m\<close>:
  \<open>TransactionContext\<close> opens a transaction (its flag: writable) and may fail; the reads
  \<open>GetInfo\<close> and \<open>GetSnapshot\<close>; the writes \<open>CreateSnapshot\<close> and \<open>CommitActive\<close>, which return
  the database as the transaction sees it; and \<open>tx_Commit\<close>, \<^verbatim>\<open>t.Commit()\<close> on that database.
  A transaction that is rolled back, or whose commit fails, leaves the database as it was.

  \<open>OS\<close> is the operating system over a state \<open>'w\<close> of the outside world: the calls of
  packages \<^verbatim>\<open>os\<close>, \<^verbatim>\<open>ioutil\<close> and \<^verbatim>\<open>syscall\<close> that the source makes, and \<^verbatim>\<open>fs.DiskUsage\<close>.
  \<open>Stat_owner\<close> is \<^verbatim>\<open>os.Stat\<close> followed by the reading of \<^verbatim>\<open>Uid\<close> and \<^verbatim>\<open>Gid\<close>.

  \<open>FileSystem\<close> is the plugin interface \<^verbatim>\<open>fsplugin.FileSystem\<close>; both methods return an error
  or \<^verbatim>\<open>nil\<close> and may change the outside world.
\<close>

record 'm MetaStore =
  TransactionContext :: "'m \<Rightarrow> bool \<Rightarrow> error option"
  GetInfo :: "'m \<Rightarrow> string \<Rightarrow> error + (string \<times> Info \<times> Usage)"
  GetSnapshot :: "'m \<Rightarrow> string \<Rightarrow> error + Snapshot"
  CreateSnapshot :: "'m \<Rightarrow> Kind \<Rightarrow> string \<Rightarrow> string \<Rightarrow> Opt list \<Rightarrow> error + (Snapshot \<times> 'm)"
  CommitActive :: "'m \<Rightarrow> string \<Rightarrow> string \<Rightarrow> Usage \<Rightarrow> Opt list \<Rightarrow> error + (string \<times> 'm)"
  tx_Commit :: "'m \<Rightarrow> error option"

record 'w OS =
  TempDir :: "string \<Rightarrow> string \<Rightarrow> 'w \<Rightarrow> (error + string) \<times> 'w"
  Mkdir :: "string \<Rightarrow> nat \<Rightarrow> 'w \<Rightarrow> error option \<times> 'w"
  Stat_owner :: "string \<Rightarrow> 'w \<Rightarrow> error + (uint32 \<times> uint32)"
  Lchown :: "string \<Rightarrow> uint32 \<Rightarrow> uint32 \<Rightarrow> 'w \<Rightarrow> error option \<times> 'w"
  Rename :: "string \<Rightarrow> string \<Rightarrow> 'w \<Rightarrow> error option \<times> 'w"
  Unmount :: "string \<Rightarrow> 'w \<Rightarrow> 'w"
  RemoveAll :: "string \<Rightarrow> 'w \<Rightarrow> error option \<times> 'w"
  DiskUsage :: "string \<Rightarrow> 'w \<Rightarrow> error + Usage"

record 'w FileSystem =
  fs_Mount :: "string \<Rightarrow> (string \<rightharpoonup> string) \<Rightarrow> 'w \<Rightarrow> error option \<times> 'w"
  fs_Check :: "string \<Rightarrow> 'w \<Rightarrow> error option \<times> 'w"

text \<open>
  The \<^verbatim>\<open>snapshotter\<close>: its root directory, the flag \<^verbatim>\<open>asyncRemove\<close> and the chain of
  filesystems, with the metadata store and the operating system it runs on.
\<close>

record ('m, 'w) snapshotter =
  sn_root :: string
  ms :: "'m MetaStore"
  os :: "'w OS"
  asyncRemove :: bool
  fsChain :: "'w FileSystem list"

subsection \<open>Numbers as text\<close>

text \<open>\<^verbatim>\<open>fmt.Sprintf("%d", i)\<close>: the decimal digits, after a minus sign when negative.\<close>

definition digit_char :: "nat \<Rightarrow> char" where
  "digit_char d = ''0123456789'' ! d"

function decimal :: "nat \<Rightarrow> string" where
  "decimal n = (if n < 10 then [digit_char n] else decimal (n div 10) @ [digit_char (n mod 10)])"
  by pat_completeness auto
termination
  by (relation "measure id") auto

declare decimal.simps [simp del]

definition Sprintf_d :: "int \<Rightarrow> string" where
  "Sprintf_d i = (if i < 0 then CHR ''-'' # decimal (nat (- i)) else decimal (nat i))"

text \<open>
  \<^verbatim>\<open>fmt.Sprintf("%q", s)\<close>, which is \<^verbatim>\<open>strconv.Quote\<close>: the text between double quotes, a double
  quote and a backslash escaped with a backslash, the control characters written as their Go
  escapes (a backslash before one of \<^verbatim>\<open>a b t n v f r\<close>, and before \<^verbatim>\<open>x\<close> and two hexadecimal
  digits for the others). The
  text is read as ASCII: a byte above \<^verbatim>\<open>0x7e\<close> other than \<^verbatim>\<open>0x7f\<close> is kept, as Go keeps the bytes
  of every printable rune.
\<close>

definition hex_char :: "nat \<Rightarrow> char" where
  "hex_char d = ''0123456789abcdef'' ! d"

definition quote_byte :: "char \<Rightarrow> string" where
  "quote_byte c =
     (if c = CHR 0x22 then [CHR 0x5C, CHR 0x22]
      else if c = CHR 0x5C then [CHR 0x5C, CHR 0x5C]
      else if c = CHR 0x07 then [CHR 0x5C, CHR ''a'']
      else if c = CHR 0x08 then [CHR 0x5C, CHR ''b'']
      else if c = CHR 0x0C then [CHR 0x5C, CHR ''f'']
      else if c = CHR 0x0A then [CHR 0x5C, CHR ''n'']
      else if c = CHR 0x0D then [CHR 0x5C, CHR ''r'']
      else if c = CHR 0x09 then [CHR 0x5C, CHR ''t'']
      else if c = CHR 0x0B then [CHR 0x5C, CHR ''v'']
      else if (of_char c :: nat) < 32 \<or> c = CHR 0x7F then
        [CHR 0x5C, CHR ''x'', hex_char ((of_char c :: nat) div 16),
         hex_char ((of_char c :: nat) mod 16)]
      else [c])"

definition Sprintf_q :: "string \<Rightarrow> string" where
  "Sprintf_q str = [CHR 0x22] @ concat (map quote_byte str) @ [CHR 0x22]"

text \<open>\<^verbatim>\<open>err.Error()\<close>, which \<^verbatim>\<open>%v\<close> prints for an error.\<close>

definition Error_string :: "error \<Rightarrow> string" where
  "Error_string err = (case err of Error k msg \<Rightarrow> msg)"

text \<open>
  \<^verbatim>\<open>strconv.ParseInt(s, 10, 64)\<close>: an optional sign, then one or more decimal digits, and a
  value in the range of \<^verbatim>\<open>int64\<close>; \<open>None\<close> stands for its error.
\<close>

definition digit_of :: "char \<Rightarrow> nat option" where
  "digit_of c =
     (if 48 \<le> (of_char c :: nat) \<and> (of_char c :: nat) \<le> 57 then Some (of_char c - 48)
      else None)"

fun digits_value :: "nat \<Rightarrow> string \<Rightarrow> nat option" where
  "digits_value acc [] = Some acc"
| "digits_value acc (c # cs) =
     (case digit_of c of None \<Rightarrow> None | Some d \<Rightarrow> digits_value (10 * acc + d) cs)"

definition ParseInt :: "string \<Rightarrow> int option" where
  "ParseInt str =
     (case str of
        [] \<Rightarrow> None
      | c # rest \<Rightarrow>
          let neg = (c = CHR ''-'');
              ds = (if c = CHR ''+'' \<or> c = CHR ''-'' then rest else str)
          in if ds = [] then None
             else case digits_value 0 ds of
                    None \<Rightarrow> None
                  | Some n \<Rightarrow>
                      let v = (if neg then - int n else int n)
                      in if - (2 ^ 63) \<le> v \<and> v < 2 ^ 63 then Some v else None)"

text \<open>\<^verbatim>\<open>strings.Join\<close>.\<close>

fun strings_Join :: "string list \<Rightarrow> string \<Rightarrow> string" where
  "strings_Join [] sep = []"
| "strings_Join [x] sep = x"
| "strings_Join (x # y # ys) sep = x @ sep @ strings_Join (y # ys) sep"

subsection \<open>The snapshotter: operations\<close>

definition upperPath :: "('m, 'w) snapshotter \<Rightarrow> string \<Rightarrow> string" where
  "upperPath sn ident = filepath_Join [sn_root sn, ''snapshots'', ident, ''fs'']"

definition workPath :: "('m, 'w) snapshotter \<Rightarrow> string \<Rightarrow> string" where
  "workPath sn ident = filepath_Join [sn_root sn, ''snapshots'', ident, ''work'']"

text \<open>\<^verbatim>\<open>snapshotter.Usage\<close>. It changes neither the database nor the outside world.\<close>

definition Usage :: "('m, 'w) snapshotter \<Rightarrow> string \<Rightarrow> 'm \<Rightarrow> 'w \<Rightarrow> error + Usage" where
  "Usage sn key m w =
     (case TransactionContext (ms sn) m False of
        Some err \<Rightarrow> Inl err
      | None \<Rightarrow>
          (case GetInfo (ms sn) m key of
             Inl err \<Rightarrow> Inl err
           | Inr (ident, info, usage) \<Rightarrow>
               if Info_Kind info = KindActive then
                 (case DiskUsage (os sn) (upperPath sn ident) w of
                    Inl err \<Rightarrow> Inl err
                  | Inr du \<Rightarrow> Inr du)
               else Inr usage))"

text \<open>
  The last lines of \<^verbatim>\<open>checkAvailability\<close>, for one layer: the layer counts as available
  when it has no filesystem label, or when the label is a valid index into the chain and
  that filesystem's \<^verbatim>\<open>Check\<close> of the layer's mountpoint returns \<^verbatim>\<open>nil\<close>.
\<close>

definition check_layer :: "('m, 'w) snapshotter \<Rightarrow> string \<Rightarrow> Info \<Rightarrow> 'w \<Rightarrow> bool \<times> 'w" where
  "check_layer sn ident info w =
     (case Info_Labels info filesystemIDLabel of
        None \<Rightarrow> (True, w)
      | Some fsidLabel \<Rightarrow>
          (case ParseInt fsidLabel of
             None \<Rightarrow> (False, w)
           | Some fsid \<Rightarrow>
               if fsid < 0 \<or> int (length (fsChain sn)) \<le> fsid then (False, w)
               else
                 (case fs_Check (fsChain sn ! nat fsid) (upperPath sn ident) w of
                    (Some err, w') \<Rightarrow> (False, w')
                  | (None, w') \<Rightarrow> (True, w'))))"

text \<open>
  \<^verbatim>\<open>checkAvailability\<close>. It follows the parents as the database names them, so it returns
  only if that chain ends or breaks: \<open>None\<close> is a run that does not return.
\<close>

partial_function (option) checkAvailability ::
  "('m, 'w) snapshotter \<Rightarrow> 'm \<Rightarrow> string \<Rightarrow> 'w \<Rightarrow> (bool \<times> 'w) option" where
  "checkAvailability sn m key w =
     (case TransactionContext (ms sn) m False of
        Some err \<Rightarrow> Some (False, w)
      | None \<Rightarrow>
          (case GetInfo (ms sn) m key of
             Inl err \<Rightarrow> Some (False, w)
           | Inr (ident, info, usage) \<Rightarrow>
               if Info_Parent info \<noteq> [] then
                 Option.bind (checkAvailability sn m (Info_Parent info) w)
                   (\<lambda>r. if \<not> fst r then Some (False, snd r)
                        else Some (check_layer sn ident info (snd r)))
               else Some (check_layer sn ident info w)))"

text \<open>The mounts that \<^verbatim>\<open>mounts\<close> builds once the layers below are known to be available.\<close>

definition mounts_of :: "('m, 'w) snapshotter \<Rightarrow> Snapshot \<Rightarrow> Mount list" where
  "mounts_of sn sp =
     (if Snapshot_ParentIDs sp = [] then
        [\<lparr>Mount_Type = ''bind'',
          Mount_Source = upperPath sn (Snapshot_ID sp),
          Mount_Options = [if Snapshot_Kind sp = KindView then ''ro'' else ''rw'', ''rbind'']\<rparr>]
      else if Snapshot_Kind sp \<noteq> KindActive \<and> length (Snapshot_ParentIDs sp) = 1 then
        [\<lparr>Mount_Type = ''bind'',
          Mount_Source = upperPath sn (hd (Snapshot_ParentIDs sp)),
          Mount_Options = [''ro'', ''rbind'']\<rparr>]
      else
        [\<lparr>Mount_Type = ''overlay'',
          Mount_Source = ''overlay'',
          Mount_Options =
            (if Snapshot_Kind sp = KindActive then
               [''workdir='' @ workPath sn (Snapshot_ID sp),
                ''upperdir='' @ upperPath sn (Snapshot_ID sp)]
             else [])
            @ [''lowerdir=''
                 @ strings_Join (map (upperPath sn) (Snapshot_ParentIDs sp)) '':'']\<rparr>])"

text \<open>\<^verbatim>\<open>snapshotter.mounts\<close>.\<close>

definition mounts ::
  "('m, 'w) snapshotter \<Rightarrow> Snapshot \<Rightarrow> string \<Rightarrow> 'm \<Rightarrow> 'w \<Rightarrow> ((error + Mount list) \<times> 'w) option" where
  "mounts sn sp checkKey m w =
     (if checkKey \<noteq> [] then
        (case checkAvailability sn m checkKey w of
           None \<Rightarrow> None
         | Some (ok, w') \<Rightarrow>
             if \<not> ok then Some (Inl (Wrap (Error ErrUnavailable ''unavailable'')
                         (''layer '' @ Sprintf_q (Snapshot_ID sp) @ '' unavailable'')), w')
             else Some (Inr (mounts_of sn sp), w'))
      else Some (Inr (mounts_of sn sp), w))"

text \<open>\<^verbatim>\<open>cleanupSnapshotDirectory\<close>: the error of the unmount is dropped.\<close>

definition cleanupSnapshotDirectory :: "('m, 'w) snapshotter \<Rightarrow> string \<Rightarrow> 'w \<Rightarrow> error option \<times> 'w" where
  "cleanupSnapshotDirectory sn dir w =
     (let w1 = Unmount (os sn) (filepath_Join [dir, ''fs'']) w
      in case RemoveAll (os sn) dir w1 of
           (Some err, w2) \<Rightarrow> (Some (Wrap err (''failed to remove directory '' @ dir)), w2)
         | (None, w2) \<Rightarrow> (None, w2))"

text \<open>\<^verbatim>\<open>prepareDirectory\<close>: the temporary directory (empty when none was made) and the error.\<close>

definition prepareDirectory ::
  "('m, 'w) snapshotter \<Rightarrow> string \<Rightarrow> Kind \<Rightarrow> 'w \<Rightarrow> (string \<times> error option) \<times> 'w" where
  "prepareDirectory sn snapshotDir kind w =
     (case TempDir (os sn) snapshotDir ''new-'' w of
        (Inl err, w1) \<Rightarrow> (([], Some (Wrap err ''failed to create temp dir'')), w1)
      | (Inr td, w1) \<Rightarrow>
          (case Mkdir (os sn) (filepath_Join [td, ''fs'']) 0x1ed w1 of
             (Some err, w2) \<Rightarrow> ((td, Some err), w2)
           | (None, w2) \<Rightarrow>
               if kind = KindActive then
                 (case Mkdir (os sn) (filepath_Join [td, ''work'']) 0x1c9 w2 of
                    (Some err, w3) \<Rightarrow> ((td, Some err), w3)
                  | (None, w3) \<Rightarrow> ((td, None), w3))
               else ((td, None), w2)))"

text \<open>
  The first deferred function of \<^verbatim>\<open>createSnapshot\<close>, run when the function returns the
  error \<open>err\<close>: it removes the temporary directory and the snapshot directory, whichever
  is set, and extends the error when the latter cannot be removed.
\<close>

definition createSnapshot_cleanup ::
  "('m, 'w) snapshotter \<Rightarrow> string \<Rightarrow> string \<Rightarrow> error \<Rightarrow> 'w \<Rightarrow> error \<times> 'w" where
  "createSnapshot_cleanup sn td path err w =
     (let w1 = (if td \<noteq> [] then snd (cleanupSnapshotDirectory sn td w) else w)
      in if path \<noteq> [] then
           (case cleanupSnapshotDirectory sn path w1 of
              (Some err1, w2) \<Rightarrow>
                (Wrap err (''failed to remove path: '' @ Error_string err1), w2)
            | (None, w2) \<Rightarrow> (err, w2))
         else (err, w1))"

text \<open>
  \<^verbatim>\<open>createSnapshot\<close>. The result is what the function returns, the database (changed only
  when the transaction has been committed) and the outside world.
\<close>

definition createSnapshot ::
  "('m, 'w) snapshotter \<Rightarrow> Kind \<Rightarrow> string \<Rightarrow> string \<Rightarrow> Opt list \<Rightarrow> 'm \<Rightarrow> 'w
     \<Rightarrow> ((error + Mount list) \<times> 'm \<times> 'w) option" where
  "createSnapshot sn kind key parent opts m w =
     (let fail = (\<lambda>td path err w'.
            case createSnapshot_cleanup sn td path err w' of
              (err', w'') \<Rightarrow> Some (Inl err', m, w''))
      in
      case TransactionContext (ms sn) m True of
        Some err \<Rightarrow> Some (Inl err, m, w)
      | None \<Rightarrow>
          let snapshotDir = filepath_Join [sn_root sn, ''snapshots'']
          in case prepareDirectory sn snapshotDir kind w of
               ((td, Some err), w1) \<Rightarrow>
                 fail td [] (Wrap err ''failed to create prepare snapshot dir'') w1
             | ((td, None), w1) \<Rightarrow>
                 (case CreateSnapshot (ms sn) m kind key parent opts of
                    Inl err \<Rightarrow> fail td [] (Wrap err ''failed to create snapshot'') w1
                  | Inr (sp, m1) \<Rightarrow>
                      let chown =
                        (if Snapshot_ParentIDs sp \<noteq> [] then
                           (case Stat_owner (os sn) (upperPath sn (hd (Snapshot_ParentIDs sp))) w1 of
                              Inl err \<Rightarrow> (Some (Wrap err ''failed to stat parent''), w1)
                            | Inr (uid, gid) \<Rightarrow>
                                (case Lchown (os sn) (filepath_Join [td, ''fs'']) uid gid w1 of
                                   (Some err, w2) \<Rightarrow> (Some (Wrap err ''failed to chown''), w2)
                                 | (None, w2) \<Rightarrow> (None, w2)))
                         else (None, w1))
                      in case chown of
                           (Some err, w2) \<Rightarrow> fail td [] err w2
                         | (None, w2) \<Rightarrow>
                             let path = filepath_Join [snapshotDir, Snapshot_ID sp]
                             in case Rename (os sn) td path w2 of
                                  (Some err, w3) \<Rightarrow> fail td path (Wrap err ''failed to rename'') w3
                                | (None, w3) \<Rightarrow>
                                    (case tx_Commit (ms sn) m1 of
                                       Some err \<Rightarrow> fail [] path (Wrap err ''commit failed'') w3
                                     | None \<Rightarrow>
                                         (case mounts sn sp parent m1 w3 of
                                            None \<Rightarrow> None
                                          | Some (Inl err, w4) \<Rightarrow>
                                              (case createSnapshot_cleanup sn [] path err w4 of
                                                 (err', w5) \<Rightarrow> Some (Inl err', m1, w5))
                                          | Some (Inr mnts, w4) \<Rightarrow> Some (Inr mnts, m1, w4)))))"

text \<open>
  \<^verbatim>\<open>snapshotter.Commit\<close>. The disk usage of the upper directory is measured unless the
  stored labels of the snapshot hold the target label.
\<close>

definition Commit ::
  "('m, 'w) snapshotter \<Rightarrow> string \<Rightarrow> string \<Rightarrow> Opt list \<Rightarrow> 'm \<Rightarrow> 'w \<Rightarrow> error option \<times> 'm" where
  "Commit sn name key opts m w =
     (case TransactionContext (ms sn) m True of
        Some err \<Rightarrow> (Some err, m)
      | None \<Rightarrow>
          (case GetInfo (ms sn) m key of
             Inl err \<Rightarrow> (Some err, m)
           | Inr (ident, info, u) \<Rightarrow>
               let usage =
                 (if Info_Labels info targetSnapshotLabel = None then
                    DiskUsage (os sn) (upperPath sn ident) w
                  else Inr zero_Usage)
               in case usage of
                    Inl err \<Rightarrow> (Some err, m)
                  | Inr usage \<Rightarrow>
                      (case CommitActive (ms sn) m key name usage opts of
                         Inl err \<Rightarrow> (Some (Wrap err ''failed to commit snapshot''), m)
                       | Inr (ident', m1) \<Rightarrow>
                           (case tx_Commit (ms sn) m1 of
                              Some err \<Rightarrow> (Some err, m)
                            | None \<Rightarrow> (None, m1)))))"

text \<open>
  The loop of \<^verbatim>\<open>prepareRemoteSnapshot\<close> over the chain, from the index \<open>fsid\<close> on: the first
  filesystem whose \<^verbatim>\<open>Mount\<close> returns \<^verbatim>\<open>nil\<close> ends it.
\<close>

fun mount_loop ::
  "'w FileSystem list \<Rightarrow> int \<Rightarrow> string \<Rightarrow> (string \<rightharpoonup> string) \<Rightarrow> 'w \<Rightarrow> (error + int) \<times> 'w" where
  "mount_loop [] fsid mountpoint labels w =
     (Inl (errors_New ''mountable remote layer not found''), w)"
| "mount_loop (f # rest) fsid mountpoint labels w =
     (case fs_Mount f mountpoint labels w of
        (None, w') \<Rightarrow> (Inr fsid, w')
      | (Some err, w') \<Rightarrow> mount_loop rest (fsid + 1) mountpoint labels w')"

definition prepareRemoteSnapshot ::
  "('m, 'w) snapshotter \<Rightarrow> string \<Rightarrow> (string \<rightharpoonup> string) \<Rightarrow> 'm \<Rightarrow> 'w \<Rightarrow> (error + int) \<times> 'w" where
  "prepareRemoteSnapshot sn key labels m w =
     (case TransactionContext (ms sn) m False of
        Some err \<Rightarrow> (Inl err, w)
      | None \<Rightarrow>
          (case GetInfo (ms sn) m key of
             Inl err \<Rightarrow> (Inl err, w)
           | Inr (ident, info, usage) \<Rightarrow>
               mount_loop (fsChain sn) 0 (upperPath sn ident) labels w))"

text \<open>\<^verbatim>\<open>snapshotter.Prepare\<close>.\<close>

definition Prepare ::
  "('m, 'w) snapshotter \<Rightarrow> string \<Rightarrow> string \<Rightarrow> Opt list \<Rightarrow> 'm \<Rightarrow> 'w
     \<Rightarrow> ((error + Mount list) \<times> 'm \<times> 'w) option" where
  "Prepare sn key parent opts m w =
     (case createSnapshot sn KindActive key parent opts m w of
        None \<Rightarrow> None
      | Some (Inl err, m1, w1) \<Rightarrow> Some (Inl err, m1, w1)
      | Some (Inr mnts, m1, w1) \<Rightarrow>
          (case apply_opts opts zero_Info of
             Inl err \<Rightarrow> Some (Inl err, m1, w1)
           | Inr base \<Rightarrow>
               (case Info_Labels base targetSnapshotLabel of
                  None \<Rightarrow> Some (Inr mnts, m1, w1)
                | Some target \<Rightarrow>
                    (case prepareRemoteSnapshot sn key (Info_Labels base) m1 w1 of
                       (Inl err, w2) \<Rightarrow> Some (Inr mnts, m1, w2)
                     | (Inr fsid, w2) \<Rightarrow>
                         let labels = (Info_Labels base)(filesystemIDLabel \<mapsto> Sprintf_d fsid)
                         in case Commit sn target key (opts @ [WithLabels labels]) m1 w2 of
                              (Some err, m2) \<Rightarrow> Some (Inr mnts, m2, w2)
                            | (None, m2) \<Rightarrow>
                                Some (Inl (Wrap (Error ErrAlreadyExists ''already exists'')
                                             (''target snapshot '' @ Sprintf_q target)), m2, w2)))))"

subsection \<open>Vocabulary for the statements about the snapshotter\<close>

text \<open>
  The world after the \<^verbatim>\<open>Mount\<close> of each filesystem of a list has been tried in turn on a
  mountpoint.
\<close>

definition world_after_mounts ::
  "'w FileSystem list \<Rightarrow> string \<Rightarrow> (string \<rightharpoonup> string) \<Rightarrow> 'w \<Rightarrow> 'w" where
  "world_after_mounts fss mountpoint labels w =
     fold (\<lambda>f w'. snd (fs_Mount f mountpoint labels w')) fss w"

text \<open>
  The metadata lookup of one snapshot, as \<^verbatim>\<open>checkAvailability\<close> makes it: a transaction is
  opened and the info is read; \<open>None\<close> when either fails.
\<close>

definition lookup :: "('m, 'w) snapshotter \<Rightarrow> 'm \<Rightarrow> string \<Rightarrow> (string \<times> Info) option" where
  "lookup sn m key =
     (case TransactionContext (ms sn) m False of
        Some err \<Rightarrow> None
      | None \<Rightarrow>
          (case GetInfo (ms sn) m key of
             Inl err \<Rightarrow> None
           | Inr (ident, info, usage) \<Rightarrow> Some (ident, info)))"

text \<open>
  \<open>lineage sn m key ls\<close>: the chain from \<open>key\<close> up through its parents ends at a snapshot
  without parent, every lookup on it succeeds, and \<open>ls\<close> lists the identifiers and infos
  found, \<open>key\<close>'s first. \<open>broken sn m key\<close>: the lookup of \<open>key\<close> or of one of its ancestors
  fails.
\<close>

inductive lineage :: "('m, 'w) snapshotter \<Rightarrow> 'm \<Rightarrow> string \<Rightarrow> (string \<times> Info) list \<Rightarrow> bool"
  for sn :: "('m, 'w) snapshotter" and m :: 'm where
  lineage_root: "lookup sn m key = Some (ident, info) \<Longrightarrow> Info_Parent info = []
      \<Longrightarrow> lineage sn m key [(ident, info)]"
| lineage_parent: "lookup sn m key = Some (ident, info) \<Longrightarrow> Info_Parent info \<noteq> []
      \<Longrightarrow> lineage sn m (Info_Parent info) ls
      \<Longrightarrow> lineage sn m key ((ident, info) # ls)"

inductive broken :: "('m, 'w) snapshotter \<Rightarrow> 'm \<Rightarrow> string \<Rightarrow> bool"
  for sn :: "('m, 'w) snapshotter" and m :: 'm where
  broken_here: "lookup sn m key = None \<Longrightarrow> broken sn m key"
| broken_above: "lookup sn m key = Some (ident, info) \<Longrightarrow> Info_Parent info \<noteq> []
      \<Longrightarrow> broken sn m (Info_Parent info)
      \<Longrightarrow> broken sn m key"

text \<open>
  The checks of a list of layers in turn, stopping at the first that fails; and the check of
  the \<open>i\<close>-th layer of a list, made in the world that the checks of the layers before it
  leave behind.
\<close>

fun check_layers :: "('m, 'w) snapshotter \<Rightarrow> (string \<times> Info) list \<Rightarrow> 'w \<Rightarrow> bool \<times> 'w" where
  "check_layers sn [] w = (True, w)"
| "check_layers sn (l # ls) w =
     (case check_layer sn (fst l) (snd l) w of
        (True, w') \<Rightarrow> check_layers sn ls w'
      | (False, w') \<Rightarrow> (False, w'))"

definition layer_available :: "('m, 'w) snapshotter \<Rightarrow> (string \<times> Info) list \<Rightarrow> nat \<Rightarrow> 'w \<Rightarrow> bool" where
  "layer_available sn ls i w =
     fst (check_layer sn (fst (ls ! i)) (snd (ls ! i)) (snd (check_layers sn (take i ls) w)))"

subsection \<open>An in-memory metadata store, operating system and filesystems for the examples\<close>

text \<open>
  A metadata store in the manner of containerd's package \<^verbatim>\<open>storage\<close>: under each key the
  identifier, the info, the usage and the identifiers of the parents. Snapshots are created
  Active or View on a committed parent under a fresh key; an Active snapshot is committed
  under a fresh name with the labels of the options, and its key is released.
\<close>

record memstore =
  entries :: "(string \<times> string \<times> Info \<times> Usage \<times> string list) list"
  next_id :: nat

definition mem_GetInfo :: "memstore \<Rightarrow> string \<Rightarrow> error + (string \<times> Info \<times> Usage)" where
  "mem_GetInfo m key =
     (case map_of (entries m) key of
        None \<Rightarrow> Inl (Error ErrNotFound ''snapshot does not exist'')
      | Some (ident, info, usage, pids) \<Rightarrow> Inr (ident, info, usage))"

definition mem_GetSnapshot :: "memstore \<Rightarrow> string \<Rightarrow> error + Snapshot" where
  "mem_GetSnapshot m key =
     (case map_of (entries m) key of
        None \<Rightarrow> Inl (Error ErrNotFound ''snapshot does not exist'')
      | Some (ident, info, usage, pids) \<Rightarrow>
          if Info_Kind info \<noteq> KindActive \<and> Info_Kind info \<noteq> KindView then
            Inl (Error ErrFailedPrecondition ''requested snapshot not active or view'')
          else Inr \<lparr>Snapshot_Kind = Info_Kind info, Snapshot_ID = ident,
                    Snapshot_ParentIDs = pids\<rparr>)"

definition mem_parents :: "memstore \<Rightarrow> string \<Rightarrow> error + string list" where
  "mem_parents m parent =
     (if parent = [] then Inr []
      else case map_of (entries m) parent of
             None \<Rightarrow> Inl (Error ErrNotFound ''missing parent'')
           | Some (pid, pinfo, pusage, ppids) \<Rightarrow>
               if Info_Kind pinfo \<noteq> KindCommitted then
                 Inl (Error ErrInvalidArgument ''parent is not committed snapshot'')
               else Inr (pid # ppids))"

definition mem_CreateSnapshot ::
  "memstore \<Rightarrow> Kind \<Rightarrow> string \<Rightarrow> string \<Rightarrow> Opt list \<Rightarrow> error + (Snapshot \<times> memstore)" where
  "mem_CreateSnapshot m kind key parent opts =
     (case apply_opts opts zero_Info of
        Inl err \<Rightarrow> Inl err
      | Inr base \<Rightarrow>
          if kind \<noteq> KindActive \<and> kind \<noteq> KindView then
            Inl (Error ErrInvalidArgument ''snapshot type must be Active or View'')
          else
            (case mem_parents m parent of
               Inl err \<Rightarrow> Inl err
             | Inr pids \<Rightarrow>
                 if map_of (entries m) key \<noteq> None then
                   Inl (Error ErrAlreadyExists ''snapshot already exists'')
                 else
                   let ident = decimal (Suc (next_id m));
                       info = \<lparr>Info_Kind = kind, Info_Name = key, Info_Parent = parent,
                               Info_Labels = Info_Labels base\<rparr>
                   in Inr (\<lparr>Snapshot_Kind = kind, Snapshot_ID = ident,
                            Snapshot_ParentIDs = pids\<rparr>,
                           m\<lparr>entries := entries m @ [(key, ident, info, zero_Usage, pids)],
                             next_id := Suc (next_id m)\<rparr>)))"

definition mem_CommitActive ::
  "memstore \<Rightarrow> string \<Rightarrow> string \<Rightarrow> Usage \<Rightarrow> Opt list \<Rightarrow> error + (string \<times> memstore)" where
  "mem_CommitActive m key name usage opts =
     (case apply_opts opts zero_Info of
        Inl err \<Rightarrow> Inl err
      | Inr base \<Rightarrow>
          if map_of (entries m) name \<noteq> None then
            Inl (Error ErrAlreadyExists ''committed snapshot already exists'')
          else
            (case map_of (entries m) key of
               None \<Rightarrow> Inl (Error ErrNotFound ''failed to get active snapshot'')
             | Some (ident, info, u, pids) \<Rightarrow>
                 if Info_Kind info \<noteq> KindActive then
                   Inl (Error ErrFailedPrecondition ''snapshot is not active'')
                 else
                   Inr (ident,
                        m\<lparr>entries := AList.delete key (entries m) @
                             [(name, ident,
                               info\<lparr>Info_Kind := KindCommitted, Info_Name := name,
                                    Info_Labels := Info_Labels base\<rparr>,
                               usage, pids)]\<rparr>)))"

definition mem_store :: "memstore MetaStore" where
  "mem_store =
     \<lparr>TransactionContext = (\<lambda>m writable. None),
      GetInfo = mem_GetInfo,
      GetSnapshot = mem_GetSnapshot,
      CreateSnapshot = mem_CreateSnapshot,
      CommitActive = mem_CommitActive,
      tx_Commit = (\<lambda>m. None)\<rparr>"

text \<open>
  An operating system in which every call succeeds. The world is the list of the mountpoints
  on which a filesystem has mounted a layer; every directory has the same disk usage.
\<close>

definition mem_os :: "string list OS" where
  "mem_os =
     \<lparr>TempDir = (\<lambda>dir prefix w. (Inr (dir @ ''/'' @ prefix @ ''1''), w)),
      Mkdir = (\<lambda>p perm w. (None, w)),
      Stat_owner = (\<lambda>p w. Inr (0, 0)),
      Lchown = (\<lambda>p uid gid w. (None, w)),
      Rename = (\<lambda>p q w. (None, w)),
      Unmount = (\<lambda>p w. w),
      RemoveAll = (\<lambda>p w. (None, w)),
      DiskUsage = (\<lambda>p w. Inr \<lparr>Inodes = 3, Size = 4096\<rparr>)\<rparr>"

text \<open>
  Three filesystems: one that mounts every layer and finds the layers it has mounted
  available; one that mounts nothing; and one that mounts every layer but finds none
  available afterwards.
\<close>

definition mounting_fs :: "string list FileSystem" where
  "mounting_fs =
     \<lparr>fs_Mount = (\<lambda>mp labels w. (None, w @ [mp])),
      fs_Check = (\<lambda>mp w. (if mp \<in> set w then None
                           else Some (errors_New ''connection not regisiterd''), w))\<rparr>"

definition refusing_fs :: "string list FileSystem" where
  "refusing_fs =
     \<lparr>fs_Mount = (\<lambda>mp labels w. (Some (errors_New ''reference hasn't been passed''), w)),
      fs_Check = (\<lambda>mp w. (Some (errors_New ''connection not regisiterd''), w))\<rparr>"

definition lost_fs :: "string list FileSystem" where
  "lost_fs =
     \<lparr>fs_Mount = (\<lambda>mp labels w. (None, w @ [mp])),
      fs_Check = (\<lambda>mp w. (Some (errors_New ''unexpected status code''), w))\<rparr>"

definition mem_snapshotter :: "string list FileSystem list \<Rightarrow> (memstore, string list) snapshotter" where
  "mem_snapshotter chain =
     \<lparr>sn_root = ''/var/lib/sn'', ms = mem_store, os = mem_os, asyncRemove = True,
      fsChain = chain\<rparr>"

definition empty_store :: memstore where
  "empty_store = \<lparr>entries = [], next_id = 0\<rparr>"

text \<open>The labels of a remote snapshot that is to be committed as \<^verbatim>\<open>c1\<close>.\<close>

definition remote_labels :: "string \<rightharpoonup> string" where
  "remote_labels = [targetSnapshotLabel \<mapsto> ''c1'']"

text \<open>A store that already holds a committed snapshot \<^verbatim>\<open>c1\<close>.\<close>

definition store_with_c1 :: memstore where
  "store_with_c1 =
     \<lparr>entries =
        [(''c1'', ''1'',
          \<lparr>Info_Kind = KindCommitted, Info_Name = ''c1'', Info_Parent = [],
           Info_Labels = Map.empty\<rparr>,
          zero_Usage, [])],
      next_id = 1\<rparr>"

text \<open>
  A store with an Active snapshot \<^verbatim>\<open>k1\<close> that carries the target label, and a committed
  snapshot \<^verbatim>\<open>c0\<close> whose stored usage is 7 inodes and 700 bytes.
\<close>

definition store_k1_c0 :: memstore where
  "store_k1_c0 =
     \<lparr>entries =
        [(''k1'', ''1'',
          \<lparr>Info_Kind = KindActive, Info_Name = ''k1'', Info_Parent = [],
           Info_Labels = remote_labels\<rparr>,
          zero_Usage, []),
         (''c0'', ''2'',
          \<lparr>Info_Kind = KindCommitted, Info_Name = ''c0'', Info_Parent = [],
           Info_Labels = Map.empty\<rparr>,
          \<lparr>Inodes = 7, Size = 700\<rparr>, [])],
      next_id = 2\<rparr>"

subsection \<open>Example inputs for the permission check\<close>

text \<open>
  A regular file \<^verbatim>\<open>bin/sh\<close> with permissions \<open>rwxr-xr--\<close> (octal 754), owned by uid and gid
  1000, and a caller who is neither the owner nor in the group.
\<close>

definition sh_entry :: TOCEntry where
  "sh_entry = TOCEntry ''bin/sh'' 0x1ec 1000 1000 [] [] 0x1000"

definition sh_node :: node where
  "sh_node = \<lparr>e = sh_entry, s = \<lparr>state_addr = 0x2000\<rparr>, root = ''/mnt'', opaque = False\<rparr>"

definition other_caller :: Context where
  "other_caller = \<lparr>Owner_Uid = 2000, Owner_Gid = 2000\<rparr>"

subsection \<open>Example directories\<close>

text \<open>
  A directory \<^verbatim>\<open>etc\<close> with the children \<^verbatim>\<open>c\<close>, \<^verbatim>\<open>.wh.b\<close>, \<^verbatim>\<open>a\<close> and a directory \<^verbatim>\<open>d\<close> that
  holds the opaque marker.
\<close>

definition file_at :: "string \<Rightarrow> uint64 \<Rightarrow> TOCEntry" where
  "file_at path a = TOCEntry path 0x1a4 0 0 [] [] a"

definition opaque_dir :: TOCEntry where
  "opaque_dir =
     TOCEntry ''etc/d'' (ModeDir OR 0x1ed) 0 0 []
       [(''.wh..wh..opq'', file_at ''etc/d/.wh..wh..opq'' 0x50)] 0x40"

definition etc_entry :: TOCEntry where
  "etc_entry =
     TOCEntry ''etc'' (ModeDir OR 0x1ed) 0 0 []
       [(''c'', file_at ''etc/c'' 0x10),
        (''.wh.b'', file_at ''etc/.wh.b'' 0x20),
        (''a'', file_at ''etc/a'' 0x30),
        (''d'', opaque_dir)] 0x60"

definition etc_node :: node where
  "etc_node = \<lparr>e = etc_entry, s = \<lparr>state_addr = 0x2000\<rparr>, root = ''/mnt'', opaque = False\<rparr>"

text \<open>
  A directory \<^verbatim>\<open>var\<close> whose only children are the whiteout \<^verbatim>\<open>.wh.x\<close> and the whiteout
  \<^verbatim>\<open>.wh..wh.x\<close> of that whiteout.
\<close>

definition var_entry :: TOCEntry where
  "var_entry =
     TOCEntry ''var'' (ModeDir OR 0x1ed) 0 0 []
       [(''.wh..wh.x'', file_at ''var/.wh..wh.x'' 0x70),
        (''.wh.x'', file_at ''var/.wh.x'' 0x80)] 0x90"

definition var_node :: node where
  "var_node = \<lparr>e = var_entry, s = \<lparr>state_addr = 0x2000\<rparr>, root = ''/mnt'', opaque = False\<rparr>"

text \<open>A layer whose root directory holds the opaque marker and has no extended attributes.\<close>

definition opaque_root :: TOCEntry where
  "opaque_root =
     TOCEntry [] (ModeDir OR 0x1ed) 0 0 []
       [(''.wh..wh..opq'', file_at ''.wh..wh..opq'' 0xa0)] 0xb0"

subsection \<open>Example inputs for \<^verbatim>\<open>Check\<close> and \<^verbatim>\<open>resolve\<close>\<close>

text \<open>
  A world that counts the round trips made, and in which every round trip is answered with
  the given status. Patterns match as literals; every URL parses; references parse into a
  domain up to the first slash and the path after it.
\<close>

definition split_ref :: "string \<Rightarrow> Named" where
  "split_ref r =
     \<lparr>Domain = takeWhile (\<lambda>c. c \<noteq> CHR ''/'') r,
      Path = drop 1 (dropWhile (\<lambda>c. c \<noteq> CHR ''/'') r)\<rparr>"

definition env_status :: "nat \<Rightarrow> nat env" where
  "env_status code =
     \<lparr>RoundTrip = (\<lambda>t req w. (Inr \<lparr>StatusCode = code, ResponseHeader = []\<rparr>, Suc w)),
      url_Parse_ok = (\<lambda>u. True),
      ParseDockerRef = (\<lambda>r. Inr (split_ref r)),
      regexp_Match = (\<lambda>p h. Inr (p = h)),
      name_ParseReference = (\<lambda>r i. Inr \<lparr>Reference_Name = r, Reference_Insecure = i\<rparr>),
      Keychain_Resolve = (\<lambda>r. Inr 0),
      transport_New = (\<lambda>r a w. (Inr 7, w)),
      NewDirectoryCache = (\<lambda>d m. None)\<rparr>"

definition layer_conn :: connection where
  "layer_conn = \<lparr>url = ''https://reg.local/v2/app/blobs/sha256:ab'', tr = 7, lastCheck = 0\<rparr>"

text \<open>A filesystem with one mounted layer and the default validity interval of 60 seconds.\<close>

definition fs_one_layer :: filesystem where
  "fs_one_layer =
     \<lparr>httpCacheChunkSize = 50000, httpCache = MemoryCache, fsCache = MemoryCache,
      layerValidInterval = 60 * Second, noprefetch = False, insecure = [''reg.local''],
      pullTransports = Map.empty, conn = [''/mnt/1/fs'' \<mapsto> layer_conn], debug = False\<rparr>"

text \<open>The same filesystem after a check of the layer at 100 seconds has been recorded.\<close>

definition fs_after_failed_check :: filesystem where
  "fs_after_failed_check =
     fs_one_layer\<lparr>conn := (conn fs_one_layer)
        (''/mnt/1/fs'' \<mapsto> layer_conn\<lparr>lastCheck := 100000000000\<rparr>)\<rparr>"

section \<open>Part II: theorems\<close>

subsection \<open>Permission check\<close>

lemma push_bit_and_drop_bit:
  "push_bit k (m :: uint32) AND x = push_bit k (m AND drop_bit k x)"
  by (rule bit_eqI) (auto simp: bit_simps)

lemma and_7_small: "(m :: uint32) \<le> 7 \<Longrightarrow> m AND 7 = m"
proof -
  assume "m \<le> 7"
  then have "m < 2 ^ 3" by (simp add: word_less_nat_alt word_le_nat_alt)
  then have "m AND mask 3 = m" by (rule less_mask_eq)
  then show ?thesis by (simp add: mask_eq_exp_minus_1)
qed

lemma push_bit_small_eq_0:
  assumes "(y :: uint32) \<le> 7" and "k \<le> 6"
  shows "push_bit k y = 0 \<longleftrightarrow> y = 0"
proof
  assume z: "push_bit k y = 0"
  show "y = 0"
  proof (rule ccontr)
    assume "y \<noteq> 0"
    then obtain i where i: "bit y i"
      by (auto simp: bit_eq_iff)
    have "y < 2 ^ 3" using assms(1) by (simp add: word_less_nat_alt word_le_nat_alt)
    then have "y AND mask 3 = y" by (rule less_mask_eq)
    then have "bit (y AND mask 3) i" using i by simp
    then have "i < 3"
      by (simp add: bit_and_iff bit_mask_iff)
    then have "bit (push_bit k y) (i + k)"
      using i assms(2) by (simp add: bit_push_bit_iff)
    with z show False by simp
  qed
qed simp

lemma access_shift_le: "access_shift ent ctx \<le> 6"
  by (simp add: access_shift_def)

lemma node_Access_field:
  assumes "Owner_Uid ctx \<noteq> 0" "mode \<noteq> 0" "mode \<le> 7"
  shows "node_Access n mode ctx = (if mode AND perm_field (e n) ctx \<noteq> 0 then OK else EPERM)"
proof -
  let ?k = "access_shift (e n) ctx"
  let ?sm = "fileModeToSystemMode (FileMode (e n))"
  have le: "mode AND drop_bit ?k ?sm \<le> 7"
    by (rule order_trans [OF word_and_le2 assms(3)])
  have "push_bit ?k mode AND ?sm = push_bit ?k (mode AND drop_bit ?k ?sm)"
    by (rule push_bit_and_drop_bit)
  then have z: "(push_bit ?k mode AND ?sm = 0) \<longleftrightarrow> (mode AND drop_bit ?k ?sm = 0)"
    using push_bit_small_eq_0 [OF le access_shift_le] by simp
  have "mode AND (drop_bit ?k ?sm AND 7) = (mode AND 7) AND drop_bit ?k ?sm"
    by (simp add: ac_simps)
  then have f: "mode AND perm_field (e n) ctx = mode AND drop_bit ?k ?sm"
    using and_7_small [OF assms(3)] by (simp add: perm_field_def)
  have "node_Access n mode ctx = (if push_bit ?k mode AND ?sm \<noteq> 0 then OK else EPERM)"
    using assms(1,2) by (simp add: node_Access_def access_shift_def Let_def)
  then show ?thesis
    by (simp only: z f)
qed

lemmas mode_consts =
  fileModeToSystemMode_def ModeType_def ModeDir_def ModeSymlink_def ModeNamedPipe_def
  ModeSocket_def ModeDevice_def ModeCharDevice_def ModeIrregular_def ModeSetgid_def
  ModeSetuid_def ModeSticky_def S_IFREG_def S_IFDIR_def S_IFCHR_def S_IFBLK_def S_IFIFO_def
  S_IFLNK_def S_IFSOCK_def S_ISGID_def S_ISUID_def S_ISVTX_def

lemma sh_entry_system_mode: "fileModeToSystemMode (FileMode sh_entry) = 0x81ec"
  by (simp add: sh_entry_def mode_consts Let_def)

lemma sh_entry_other_field: "perm_field (e sh_node) other_caller = 4"
  by (simp add: perm_field_def access_shift_def sh_node_def other_caller_def
      sh_entry_system_mode) (simp add: sh_entry_def)

text \<open>
  What holds of \<^verbatim>\<open>Access\<close> whatever the entry: on a node of a TOC entry a caller with uid 0
  is granted every request, and each of the three \<^verbatim>\<open>Access\<close> methods of the source (TOC
  node, state directory, state file) grants the request with mode 0 to every caller.
\<close>

lemma Access_granted_cases:
  "node_Access n mode (ctx\<lparr>Owner_Uid := 0\<rparr>) = OK
   \<and> node_Access n 0 ctx = OK
   \<and> state_Access st 0 ctx = OK
   \<and> statFile_Access 0 ctx = OK"
  by (simp add: node_Access_def state_Access_def statFile_Access_def)

text \<open>
  C6 at a request for read and write (mode 6) on the file \<^verbatim>\<open>bin/sh\<close> of permissions 754, by a
  caller who is neither uid 0, nor the owner, nor in the group: the uid/gid match selects the
  shift 0, the three-bit field of the entry's system mode at that shift is 4 (\<open>r--\<close>), which
  does not hold the write bit of the request, and \<^verbatim>\<open>node.Access\<close> still answers \<open>OK\<close>
  rather than \<open>EPERM\<close>: it grants as soon as one requested bit is in the field.
\<close>

theorem Access_grants_unpermitted_write:
  "Owner_Uid other_caller = 2000
   \<and> access_shift (e sh_node) other_caller = 0
   \<and> fileModeToSystemMode (FileMode (e sh_node)) = 0x81ec
   \<and> perm_field (e sh_node) other_caller = 4
   \<and> (6 :: uint32) AND perm_field (e sh_node) other_caller = 4
   \<and> node_Access sh_node 6 other_caller = OK"
proof -
  have a: "Owner_Uid other_caller = 2000"
    by (simp add: other_caller_def)
  have b: "access_shift (e sh_node) other_caller = 0"
    by (simp add: access_shift_def sh_node_def sh_entry_def other_caller_def)
  have c: "fileModeToSystemMode (FileMode (e sh_node)) = 0x81ec"
    by (simp add: sh_node_def sh_entry_system_mode)
  have d: "(6 :: uint32) AND perm_field (e sh_node) other_caller = 4"
    by (simp add: sh_entry_other_field)
  have f: "node_Access sh_node 6 other_caller = OK"
    by (simp add: node_Access_def sh_node_def other_caller_def sh_entry_system_mode)
  show ?thesis
    using a b c d f sh_entry_other_field by simp
qed

subsection \<open>Directory listing\<close>

lemma update_fresh: "k \<notin> fst ` set al \<Longrightarrow> AList.update k v al = al @ [(k, v)]"
  by (induction al) (auto simp: AList.update.simps)

lemma fold_OpenDir_child:
  assumes "distinct (map fst cs)" and "fst ` set (whiteouts v) \<inter> fst ` set cs = {}"
  shows "fold (OpenDir_child n) cs v =
     v\<lparr>ents := ents v @ map child_entry
              (filter (\<lambda>c. \<not> (Name (e n) = [] \<and> fst c = PrefetchLandmark)
                  \<and> \<not> HasPrefix (fst c) whiteoutPrefix) cs),
       whiteouts := whiteouts v @
              filter (\<lambda>c. HasPrefix (fst c) whiteoutPrefix \<and> fst c \<noteq> whiteoutOpaqueDir) cs,
       normalEnts := normalEnts v \<union> fst ` set
              (filter (\<lambda>c. \<not> (Name (e n) = [] \<and> fst c = PrefetchLandmark)
                  \<and> \<not> HasPrefix (fst c) whiteoutPrefix) cs)\<rparr>"
  using assms
proof (induction cs arbitrary: v)
  case Nil
  then show ?case by simp
next
  case (Cons c cs)
  obtain b ent where c: "c = (b, ent)" by (cases c)
  have lm: "\<not> HasPrefix PrefetchLandmark whiteoutPrefix"
    by (simp add: HasPrefix_def PrefetchLandmark_def whiteoutPrefix_def)
  define v' where "v' = OpenDir_child n c v"
  have d: "distinct (map fst cs)" using Cons.prems(1) by simp
  have fresh: "b \<notin> fst ` set (whiteouts v)" using Cons.prems(2) c by auto
  have bcs: "b \<notin> fst ` set cs" using Cons.prems(1) c by auto
  have step: "v' =
      (if \<not> (Name (e n) = [] \<and> b = PrefetchLandmark) \<and> \<not> HasPrefix b whiteoutPrefix
       then v\<lparr>normalEnts := insert b (normalEnts v), ents := ents v @ [child_entry c]\<rparr>
       else if HasPrefix b whiteoutPrefix \<and> b \<noteq> whiteoutOpaqueDir
       then v\<lparr>whiteouts := whiteouts v @ [c]\<rparr>
       else v)"
    using lm by (auto simp: v'_def OpenDir_child_def c update_fresh [OF fresh] child_entry_def)
  have w': "fst ` set (whiteouts v') \<subseteq> insert b (fst ` set (whiteouts v))"
    by (auto simp: step c)
  have disj: "fst ` set (whiteouts v') \<inter> fst ` set cs = {}"
  proof -
    have p2: "fst ` set (whiteouts v) \<inter> fst ` set cs = {}"
      using Cons.prems(2) by auto
    show ?thesis using w' p2 bcs by blast
  qed
  have "fold (OpenDir_child n) (c # cs) v = fold (OpenDir_child n) cs v'"
    by (simp add: v'_def)
  also have "\<dots> = v'\<lparr>ents := ents v' @ map child_entry
              (filter (\<lambda>c. \<not> (Name (e n) = [] \<and> fst c = PrefetchLandmark)
                  \<and> \<not> HasPrefix (fst c) whiteoutPrefix) cs),
       whiteouts := whiteouts v' @
              filter (\<lambda>c. HasPrefix (fst c) whiteoutPrefix \<and> fst c \<noteq> whiteoutOpaqueDir) cs,
       normalEnts := normalEnts v' \<union> fst ` set
              (filter (\<lambda>c. \<not> (Name (e n) = [] \<and> fst c = PrefetchLandmark)
                  \<and> \<not> HasPrefix (fst c) whiteoutPrefix) cs)\<rparr>"
    by (rule Cons.IH [OF d disj])
  also have "\<dots> = v\<lparr>ents := ents v @ map child_entry
              (filter (\<lambda>c. \<not> (Name (e n) = [] \<and> fst c = PrefetchLandmark)
                  \<and> \<not> HasPrefix (fst c) whiteoutPrefix) (c # cs)),
       whiteouts := whiteouts v @
              filter (\<lambda>c. HasPrefix (fst c) whiteoutPrefix \<and> fst c \<noteq> whiteoutOpaqueDir) (c # cs),
       normalEnts := normalEnts v \<union> fst ` set
              (filter (\<lambda>c. \<not> (Name (e n) = [] \<and> fst c = PrefetchLandmark)
                  \<and> \<not> HasPrefix (fst c) whiteoutPrefix) (c # cs))\<rparr>"
    using lm by (auto simp: step c)
  finally show ?case .
qed

lemma fold_OpenDir_whiteout:
  "fold (OpenDir_whiteout N) ws es =
     es @ map chardev_entry (filter (\<lambda>c. drop (length whiteoutPrefix) (fst c) \<notin> N) ws)"
  by (induction ws arbitrary: es) (auto simp: OpenDir_whiteout_def chardev_entry_def)

lemma OpenDir_eq:
  assumes "distinct (map fst (children (e n)))"
  shows "OpenDir n = (sort_key DirEntry_Name (listing n), OK)"
proof -
  have "fst ` set (whiteouts \<lparr>ents = [], whiteouts = [], normalEnts = {}\<rparr>) \<inter> fst ` set (children (e n)) = {}"
    by simp
  note f = fold_OpenDir_child [OF assms this, of n]
  show ?thesis
    unfolding OpenDir_def Let_def f
    by (simp add: fold_OpenDir_whiteout listing_def shown_children_def whiteout_children_def
        state_entries_def)
qed

lemmas name_consts =
  HasPrefix_def whiteoutPrefix_def whiteoutOpaqueDir_def PrefetchLandmark_def stateDirName_def

lemmas listing_defs =
  shown_children_def whiteout_children_def state_entries_def child_entry_def
  chardev_entry_def

lemma var_listing:
  "listing var_node =
     [\<lparr>DirEntry_Mode = S_IFCHR, DirEntry_Name = ''.wh.x'', DirEntry_Ino = 0x70\<rparr>,
      \<lparr>DirEntry_Mode = S_IFCHR, DirEntry_Name = ''x'', DirEntry_Ino = 0x80\<rparr>]"
  by (simp add: listing_def listing_defs name_consts var_node_def var_entry_def file_at_def
      inodeOfEnt_def)

lemma var_listing_as_stated:
  "listing_as_stated var_node =
     [\<lparr>DirEntry_Mode = S_IFCHR, DirEntry_Name = ''x'', DirEntry_Ino = 0x80\<rparr>]"
  by (simp add: listing_as_stated_def listing_defs name_consts var_node_def var_entry_def
      file_at_def inodeOfEnt_def)

lemma var_distinct: "distinct (map fst (children (e var_node)))"
  by (simp add: var_node_def var_entry_def)

text \<open>
  C5, as the claim states it: the entries of \<^verbatim>\<open>OpenDir\<close> are exactly those of the listing in
  which a whiteout \<open>.wh.X\<close> yields a character device when no sibling named \<open>X\<close> exists.
  This fails where the sibling named \<open>X\<close> is itself hidden. In a directory holding \<^verbatim>\<open>.wh.x\<close>
  and \<^verbatim>\<open>.wh..wh.x\<close>, the second whiteout has the sibling \<^verbatim>\<open>.wh.x\<close>, yet the source emits
  the character device \<^verbatim>\<open>.wh.x\<close> for it, next to the device \<^verbatim>\<open>x\<close>: it only looks for \<open>X\<close>
  among the entries it has listed (\<^verbatim>\<open>normalEnts\<close>).
\<close>

theorem OpenDir_as_stated_counterexample:
  "\<not> (\<forall>n. distinct (map fst (children (e n))) \<longrightarrow>
          mset (fst (OpenDir n)) = mset (listing_as_stated n))"
proof
  assume a: "\<forall>n. distinct (map fst (children (e n))) \<longrightarrow>
          mset (fst (OpenDir n)) = mset (listing_as_stated n)"
  from a [rule_format, OF var_distinct]
  have "mset (fst (OpenDir var_node)) = mset (listing_as_stated var_node)" .
  then have "size (mset (fst (OpenDir var_node))) = size (mset (listing_as_stated var_node))"
    by simp
  then show False
    by (simp add: OpenDir_eq [OF var_distinct] var_listing var_listing_as_stated)
qed

text \<open>
  C5, amended: for every directory node (whose children, being the keys of a Go map, have
  distinct names) \<^verbatim>\<open>OpenDir\<close> succeeds and returns exactly the following entries, sorted
  lexicographically by name: the TOC children other than the root's \<^verbatim>\<open>.prefetch.landmark\<close>
  and the children whose name starts with \<^verbatim>\<open>.wh.\<close>; for every child \<^verbatim>\<open>.wh.X\<close> other than
  \<^verbatim>\<open>.wh..wh..opq\<close>, a character device named \<open>X\<close> when no \<^emph>\<open>listed\<close> sibling is named \<open>X\<close>
  (a hidden sibling, such as another whiteout or the root's landmark, does not count); and,
  when the directory is the root, the \<^verbatim>\<open>.stargz-snapshotter\<close> directory.
\<close>

theorem OpenDir_listing:
  assumes "distinct (map fst (children (e n)))"
  shows "snd (OpenDir n) = OK
    \<and> mset (fst (OpenDir n)) = mset (listing n)
    \<and> sorted (map DirEntry_Name (fst (OpenDir n)))"
  by (simp add: OpenDir_eq [OF assms])

lemma etc_distinct: "distinct (map fst (children (e etc_node)))"
  by (simp add: etc_node_def etc_entry_def)

lemma etc_listing:
  "listing etc_node =
     [\<lparr>DirEntry_Mode = 0x81a4, DirEntry_Name = ''c'', DirEntry_Ino = 0x10\<rparr>,
      \<lparr>DirEntry_Mode = 0x81a4, DirEntry_Name = ''a'', DirEntry_Ino = 0x30\<rparr>,
      \<lparr>DirEntry_Mode = 0x41ed, DirEntry_Name = ''d'', DirEntry_Ino = 0x40\<rparr>,
      \<lparr>DirEntry_Mode = 0x2000, DirEntry_Name = ''b'', DirEntry_Ino = 0x20\<rparr>]"
  by (simp add: listing_def listing_defs name_consts etc_node_def etc_entry_def file_at_def
      opaque_dir_def inodeOfEnt_def mode_consts Let_def)

theorem OpenDir_listing_witness:
  "distinct (map fst (children (e etc_node)))
   \<and> snd (OpenDir etc_node) = OK
   \<and> mset (fst (OpenDir etc_node)) =
       mset [\<lparr>DirEntry_Mode = 0x81a4, DirEntry_Name = ''a'', DirEntry_Ino = 0x30\<rparr>,
             \<lparr>DirEntry_Mode = 0x2000, DirEntry_Name = ''b'', DirEntry_Ino = 0x20\<rparr>,
             \<lparr>DirEntry_Mode = 0x81a4, DirEntry_Name = ''c'', DirEntry_Ino = 0x10\<rparr>,
             \<lparr>DirEntry_Mode = 0x41ed, DirEntry_Name = ''d'', DirEntry_Ino = 0x40\<rparr>]
   \<and> sorted (map DirEntry_Name (fst (OpenDir etc_node)))"
  using OpenDir_listing [OF etc_distinct] etc_distinct
  by (simp add: etc_listing)

subsection \<open>The opaque attribute\<close>

lemma Lookup_opaque:
  assumes "Lookup n name = (Some (TOCNode c), OK)"
  shows "opaque c = (LookupChild (e c) whiteoutOpaqueDir \<noteq> None)"
  using assms by (auto simp: Lookup_def split: if_splits option.splits)

text \<open>
  C7 at the root of a layer whose root directory holds \<^verbatim>\<open>.wh..wh..opq\<close>: the TOC entry has the
  marker as a child, but the root node, which \<^verbatim>\<open>Mount\<close> builds without setting \<open>opaque\<close>,
  answers \<^verbatim>\<open>getxattr("trusted.overlay.opaque")\<close> with the no-data error and lists no
  attribute.
\<close>

theorem opaque_root_not_reported:
  "LookupChild opaque_root whiteoutOpaqueDir \<noteq> None
   \<and> GetXAttr (Mount_root_node opaque_root st mountpoint) opaqueXattr = (None, ENOATTR)
   \<and> ListXAttr (Mount_root_node opaque_root st mountpoint) = ([], OK)"
  by (simp add: LookupChild_def opaque_root_def whiteoutOpaqueDir_def whiteoutPrefix_def
      GetXAttr_def ListXAttr_def Mount_root_node_def)

subsection \<open>Liveness check of a layer\<close>

lemma Time_Sub_nonneg:
  assumes "u \<le> t"
  shows "\<not> Time_Sub t u <s 0"
proof -
  define d where "d = t - u"
  have d0: "0 \<le> d" using assms by (simp add: d_def)
  define x where "x = (if 2 ^ 63 - 1 < d then 2 ^ 63 - 1 else d)"
  have x: "0 \<le> x" "x < 2 ^ 63" using d0 by (auto simp: x_def)
  have "Time_Sub t u = (word_of_int x :: int64)"
    using d0 by (simp add: Time_Sub_def Let_def d_def [symmetric] x_def)
  moreover have "sint (word_of_int x :: int64) = x"
    using x by (simp add: sint_sbintrunc' signed_take_bit_int_eq_self)
  ultimately show ?thesis
    using x by (simp add: word_sless_alt)
qed

lemma probe_request:
  "range_probe \<lparr>Method = ''GET'', URL = u, Header = [], Close = False, Timeout = None\<rparr>
     = \<lparr>Method = ''GET'', URL = u, Header = [(''Range'', ''bytes=0-1'')], Close = False,
        Timeout = Some (30 * Second)\<rparr>"
  by (simp add: range_probe_def Header_Set_def)

lemma Check_valid:
  assumes "conn fs mp = Some c" and "Time_Sub now (lastCheck c) <s layerValidInterval fs"
  shows "Check env fs now mp w = (None, fs, w)"
  using assms by (simp add: Check_def)

lemma Check_expired:
  assumes "conn fs mp = Some c" and "\<not> Time_Sub now (lastCheck c) <s layerValidInterval fs"
    and "url_Parse_ok env (url c)"
  shows "Check env fs now mp w =
     (case RoundTrip env (tr c)
             \<lparr>Method = ''GET'', URL = url c, Header = [(''Range'', ''bytes=0-1'')],
              Close = False, Timeout = Some (30 * Second)\<rparr> w of
        (Inl err, w') \<Rightarrow>
          (Some err, fs\<lparr>conn := (conn fs)(mp \<mapsto> c\<lparr>lastCheck := now\<rparr>)\<rparr>, w')
      | (Inr res, w') \<Rightarrow>
          (if StatusCode res = 200 \<or> StatusCode res = 206 then None
           else Some (errors_New ''unexpected status code''),
           fs\<lparr>conn := (conn fs)(mp \<mapsto> c\<lparr>lastCheck := now\<rparr>)\<rparr>, w'))"
  using assms
  by (simp add: Check_def NewRequest_def probe_request Let_def split: prod.splits sum.splits)

lemma NewFilesystem_interval:
  assumes "NewFilesystem env rootdir config = Inr fs"
  shows "layerValidInterval fs =
     (if LayerValidInterval config = 0 then 60 * Second
      else if LayerValidInterval config <s 0 then 0
      else LayerValidInterval config * Second)"
  using assms
  by (auto simp: NewFilesystem_def Let_def defaultLayerValidInterval_def
      split: sum.splits if_splits)

lemma fs_one_layer_conn: "conn fs_one_layer ''/mnt/1/fs'' = Some layer_conn"
  by (simp add: fs_one_layer_def)

lemma sixty_seconds: "sint (60 * Second) = 60000000000"
  by (simp add: Second_def)

lemma Time_Sub_small:
  assumes "0 \<le> t - u" and "t - u < 2 ^ 63"
  shows "sint (Time_Sub t u) = t - u"
proof -
  define d where "d = t - u"
  have d: "0 \<le> d" "d < 2 ^ 63" using assms by (simp_all add: d_def)
  have "Time_Sub t u = (word_of_int d :: int64)"
    using d by (simp add: Time_Sub_def Let_def d_def [symmetric])
  moreover have "sint (word_of_int d :: int64) = d"
    using d by (simp add: sint_sbintrunc' signed_take_bit_int_eq_self)
  ultimately show ?thesis by (simp add: d_def)
qed

text \<open>
  C4 at a check that fails: 100 seconds after the mount, with the default interval of 60
  seconds, the registry answers the probe with status 500, and \<^verbatim>\<open>Check\<close> returns an error
  after one round trip. The connection record it leaves behind nevertheless has its
  \<open>lastCheck\<close> moved to the time of that failed check, because the source assigns
  \<^verbatim>\<open>c.lastCheck = now\<close> before it sends the request. The next \<^verbatim>\<open>Check\<close>, one nanosecond later
  against the same registry, finds the interval not expired and returns \<^verbatim>\<open>nil\<close> without any
  round trip (the count of round trips stays 1).
\<close>

theorem Check_silent_after_failure:
  "conn fs_one_layer ''/mnt/1/fs'' = Some layer_conn
   \<and> lastCheck layer_conn = 0
   \<and> Check (env_status 500) fs_one_layer 100000000000 ''/mnt/1/fs'' 0
       = (Some (errors_New ''unexpected status code''), fs_after_failed_check, 1)
   \<and> conn fs_after_failed_check ''/mnt/1/fs'' = Some (layer_conn\<lparr>lastCheck := 100000000000\<rparr>)
   \<and> Check (env_status 500) fs_after_failed_check 100000000001 ''/mnt/1/fs'' 1
       = (None, fs_after_failed_check, 1)"
proof -
  have ex: "\<not> Time_Sub 100000000000 (lastCheck layer_conn) <s layerValidInterval fs_one_layer"
    by (simp add: word_sless_alt Time_Sub_small layer_conn_def fs_one_layer_def sixty_seconds)
  have ok: "url_Parse_ok (env_status 500) (url layer_conn)"
    by (simp add: env_status_def)
  have first: "Check (env_status 500) fs_one_layer 100000000000 ''/mnt/1/fs'' 0
       = (Some (errors_New ''unexpected status code''), fs_after_failed_check, 1)"
    by (simp add: Check_expired [OF fs_one_layer_conn ex ok] fs_after_failed_check_def)
       (simp add: env_status_def)
  have c: "conn fs_after_failed_check ''/mnt/1/fs'' = Some (layer_conn\<lparr>lastCheck := 100000000000\<rparr>)"
    by (simp add: fs_after_failed_check_def)
  have valid: "Time_Sub 100000000001 (lastCheck (layer_conn\<lparr>lastCheck := 100000000000\<rparr>))
      <s layerValidInterval fs_after_failed_check"
    by (simp add: word_sless_alt Time_Sub_small fs_after_failed_check_def fs_one_layer_def
        sixty_seconds)
  have second: "Check (env_status 500) fs_after_failed_check 100000000001 ''/mnt/1/fs'' 1
       = (None, fs_after_failed_check, 1)"
    by (rule Check_valid [OF c valid])
  have l: "lastCheck layer_conn = 0"
    by (simp add: layer_conn_def)
  show ?thesis
    using fs_one_layer_conn l first c second by simp
qed

subsection \<open>Resolving a reference to a blob URL\<close>

lemma isInsecure_loop_iff:
  "isInsecure_loop env ps host \<longleftrightarrow> (\<exists>i \<in> set ps. regexp_Match env i host = Inr True)"
  by (induction ps) (auto split: sum.splits bool.splits)

lemma checkAndRedirect_url:
  assumes "checkAndRedirect env u t w = (Inr u', w')"
  shows "u' = u
     \<or> (\<exists>res. RoundTrip env t
                 \<lparr>Method = ''GET'', URL = u, Header = [(''Range'', ''bytes=0-1'')],
                  Close = False, Timeout = Some (30 * Second)\<rparr> w = (Inr res, w')
          \<and> StatusCode res div 100 = 3
          \<and> u' = Header_Get (ResponseHeader res) ''Location'')"
  using assms
  by (auto simp: checkAndRedirect_def NewRequest_def probe_request Let_def
      split: if_splits sum.splits prod.splits)

lemma resolve_transport_url:
  assumes "resolve_transport env fs u nameref w = (Inr (u', t), fs', w')"
  shows "u' = u
     \<or> (\<exists>res w0 w1. RoundTrip env t
                 \<lparr>Method = ''GET'', URL = u, Header = [(''Range'', ''bytes=0-1'')],
                  Close = False, Timeout = Some (30 * Second)\<rparr> w0 = (Inr res, w1)
          \<and> StatusCode res div 100 = 3
          \<and> u' = Header_Get (ResponseHeader res) ''Location'')"
  using assms
  by (auto simp: resolve_transport_def Let_def
      split: option.splits sum.splits prod.splits dest!: checkAndRedirect_url)

text \<open>
  C8: for every reference that \<^verbatim>\<open>docker.ParseDockerRef\<close> parses and every digest, \<^verbatim>\<open>resolve\<close>
  takes the domain and path of the parsed reference, replaces the host \<^verbatim>\<open>docker.io\<close> by
  \<^verbatim>\<open>registry-1.docker.io\<close>, takes the scheme \<^verbatim>\<open>http\<close> iff some configured insecure pattern
  matches that host and \<^verbatim>\<open>https\<close> otherwise, and continues with the blob URL
  \<open>scheme://host/v2/path/blobs/digest\<close>: that URL is what every transport is probed with,
  and it is the URL returned unless a probe is answered with a redirect.
\<close>

theorem resolve_blob_url:
  assumes "ParseDockerRef env ref = Inr named"
  shows
    "let host = (if Domain named = ''docker.io'' then ''registry-1.docker.io''
                 else Domain named);
         ins = (\<exists>i \<in> set (insecure fs). regexp_Match env i host = Inr True);
         scheme = (if ins then ''http'' else ''https'');
         u = scheme @ ''://'' @ host @ ''/v2/'' @ Path named @ ''/blobs/'' @ digest
     in resolve env fs ref digest w =
          (case name_ParseReference env (host @ ''/'' @ Path named) ins of
             Inl err \<Rightarrow> (Inl (errors_New ''failed to parse reference''), fs, w)
           | Inr nameref \<Rightarrow> resolve_transport env fs u nameref w)
        \<and> (\<forall>u' t fs' w'. resolve env fs ref digest w = (Inr (u', t), fs', w') \<longrightarrow>
              u' = u
              \<or> (\<exists>res w0 w1. RoundTrip env t
                      \<lparr>Method = ''GET'', URL = u, Header = [(''Range'', ''bytes=0-1'')],
                       Close = False, Timeout = Some (30 * Second)\<rparr> w0 = (Inr res, w1)
                   \<and> StatusCode res div 100 = 3
                   \<and> u' = Header_Get (ResponseHeader res) ''Location''))"
proof -
  define host where "host = (if Domain named = ''docker.io'' then ''registry-1.docker.io''
                 else Domain named)"
  define ins where "ins = (\<exists>i \<in> set (insecure fs). regexp_Match env i host = Inr True)"
  define u where "u = (if ins then ''http'' else ''https'') @ ''://'' @ host @ ''/v2/''
      @ Path named @ ''/blobs/'' @ digest"
  have eq: "resolve env fs ref digest w =
          (case name_ParseReference env (host @ ''/'' @ Path named) ins of
             Inl err \<Rightarrow> (Inl (errors_New ''failed to parse reference''), fs, w)
           | Inr nameref \<Rightarrow> resolve_transport env fs u nameref w)"
  proof -
    have i: "isInsecure env fs host = ins"
      by (simp add: isInsecure_def isInsecure_loop_iff ins_def)
    have "resolve env fs ref digest w =
        (case name_ParseReference env (host @ ''/'' @ Path named) (isInsecure env fs host) of
           Inl err \<Rightarrow> (Inl (errors_New ''failed to parse reference''), fs, w)
         | Inr nameref \<Rightarrow>
             resolve_transport env fs
               ((if isInsecure env fs host then ''http'' else ''https'') @ ''://'' @ host
                  @ ''/v2/'' @ Path named @ ''/blobs/'' @ digest) nameref w)"
      unfolding resolve_def Let_def host_def assms by (simp only: sum.case)
    then show ?thesis
      unfolding i u_def .
  qed
  have ret: "\<forall>u' t fs' w'. resolve env fs ref digest w = (Inr (u', t), fs', w') \<longrightarrow>
              u' = u
              \<or> (\<exists>res w0 w1. RoundTrip env t
                      \<lparr>Method = ''GET'', URL = u, Header = [(''Range'', ''bytes=0-1'')],
                       Close = False, Timeout = Some (30 * Second)\<rparr> w0 = (Inr res, w1)
                   \<and> StatusCode res div 100 = 3
                   \<and> u' = Header_Get (ResponseHeader res) ''Location'')"
  proof (intro allI impI)
    fix u' t fs' w'
    assume r: "resolve env fs ref digest w = (Inr (u', t), fs', w')"
    show "u' = u
              \<or> (\<exists>res w0 w1. RoundTrip env t
                      \<lparr>Method = ''GET'', URL = u, Header = [(''Range'', ''bytes=0-1'')],
                       Close = False, Timeout = Some (30 * Second)\<rparr> w0 = (Inr res, w1)
                   \<and> StatusCode res div 100 = 3
                   \<and> u' = Header_Get (ResponseHeader res) ''Location'')"
    proof (cases "name_ParseReference env (host @ ''/'' @ Path named) ins")
      case (Inl err)
      with r eq show ?thesis by simp
    next
      case (Inr nameref)
      with r eq have "resolve_transport env fs u nameref w = (Inr (u', t), fs', w')" by simp
      then show ?thesis by (rule resolve_transport_url)
    qed
  qed
  show ?thesis
    unfolding Let_def host_def [symmetric] ins_def [symmetric] u_def [symmetric]
    by (rule conjI [OF eq ret])
qed

lemma split_ref_local: "split_ref ''reg.local/app'' = \<lparr>Domain = ''reg.local'', Path = ''app''\<rparr>"
  by (simp add: split_ref_def)

lemma split_ref_hub:
  "split_ref ''docker.io/library/alpine'' = \<lparr>Domain = ''docker.io'', Path = ''library/alpine''\<rparr>"
  by (simp add: split_ref_def)

theorem resolve_blob_url_witness:
  "ParseDockerRef (env_status 200) ''reg.local/app''
      = Inr \<lparr>Domain = ''reg.local'', Path = ''app''\<rparr>
   \<and> fst (resolve (env_status 200) fs_one_layer ''reg.local/app'' ''sha256:ab'' 0)
      = Inr (''http://reg.local/v2/app/blobs/sha256:ab'', 7)
   \<and> ParseDockerRef (env_status 200) ''docker.io/library/alpine''
      = Inr \<lparr>Domain = ''docker.io'', Path = ''library/alpine''\<rparr>
   \<and> fst (resolve (env_status 200) fs_one_layer ''docker.io/library/alpine'' ''sha256:cd'' 0)
      = Inr (''https://registry-1.docker.io/v2/library/alpine/blobs/sha256:cd'', 7)"
proof -
  have p1: "ParseDockerRef (env_status 200) ''reg.local/app''
      = Inr \<lparr>Domain = ''reg.local'', Path = ''app''\<rparr>"
    by (simp add: env_status_def split_ref_local)
  have p2: "ParseDockerRef (env_status 200) ''docker.io/library/alpine''
      = Inr \<lparr>Domain = ''docker.io'', Path = ''library/alpine''\<rparr>"
    by (simp add: env_status_def split_ref_hub)
  have tr: "\<And>u n. fst (resolve_transport (env_status 200) fs_one_layer u n 0) = Inr (u, 7)"
    by (simp add: resolve_transport_def refreshTransport_def checkAndRedirect_def
        NewRequest_def Header_Get_def Let_def fs_one_layer_def env_status_def)
  have m1: "(\<exists>i \<in> set (insecure fs_one_layer). regexp_Match (env_status 200) i ''reg.local'' = Inr True)"
    by (simp add: fs_one_layer_def env_status_def)
  have m2: "\<not> (\<exists>i \<in> set (insecure fs_one_layer).
      regexp_Match (env_status 200) i ''registry-1.docker.io'' = Inr True)"
    by (simp add: fs_one_layer_def env_status_def)
  have nr: "\<And>r i. name_ParseReference (env_status 200) r i
      = Inr \<lparr>Reference_Name = r, Reference_Insecure = i\<rparr>"
    by (simp add: env_status_def)
  from resolve_blob_url [OF p1, of fs_one_layer "''sha256:ab''" 0]
  have r1: "fst (resolve (env_status 200) fs_one_layer ''reg.local/app'' ''sha256:ab'' 0)
      = Inr (''http://reg.local/v2/app/blobs/sha256:ab'', 7)"
    unfolding Let_def by (simp add: m1 nr tr)
  from resolve_blob_url [OF p2, of fs_one_layer "''sha256:cd''" 0]
  have r2: "fst (resolve (env_status 200) fs_one_layer ''docker.io/library/alpine'' ''sha256:cd'' 0)
      = Inr (''https://registry-1.docker.io/v2/library/alpine/blobs/sha256:cd'', 7)"
    unfolding Let_def by (simp add: m2 nr tr)
  show ?thesis using p1 p2 r1 r2 by simp
qed

subsection \<open>Usage of a snapshot\<close>

lemmas mem_defs =
  mem_snapshotter_def mem_store_def mem_os_def mem_GetInfo_def

text \<open>
  C10: when the lookup of \<open>key\<close> finds a snapshot with identifier \<open>ident\<close>, \<^verbatim>\<open>Usage\<close> returns,
  for a snapshot whose stored kind is Active, what the scan of the directory
  \<open>root/snapshots/ident/fs\<close> returns (its usage, or its error), whatever the labels of the
  snapshot are; and for a snapshot of any other kind the usage stored in the database.
\<close>

theorem Usage_by_kind:
  assumes "TransactionContext (ms sn) m False = None"
    and "GetInfo (ms sn) m key = Inr (ident, info, usage)"
  shows "(Info_Kind info = KindActive \<longrightarrow>
            Usage sn key m w
              = DiskUsage (os sn) (filepath_Join [sn_root sn, ''snapshots'', ident, ''fs'']) w)
       \<and> (Info_Kind info \<noteq> KindActive \<longrightarrow> Usage sn key m w = Inr usage)"
  using assms by (simp add: Usage_def upperPath_def split: sum.splits)

theorem Usage_by_kind_witness:
  "TransactionContext (ms (mem_snapshotter [])) store_k1_c0 False = None
   \<and> (\<exists>info. GetInfo (ms (mem_snapshotter [])) store_k1_c0 ''k1'' = Inr (''1'', info, zero_Usage)
         \<and> Info_Kind info = KindActive
         \<and> Info_Labels info targetSnapshotLabel = Some ''c1'')
   \<and> Usage (mem_snapshotter []) ''k1'' store_k1_c0 []
        = DiskUsage mem_os ''/var/lib/sn/snapshots/1/fs'' []
   \<and> Usage (mem_snapshotter []) ''k1'' store_k1_c0 [] = Inr \<lparr>Inodes = 3, Size = 4096\<rparr>
   \<and> Usage (mem_snapshotter []) ''c0'' store_k1_c0 [] = Inr \<lparr>Inodes = 7, Size = 700\<rparr>"
proof -
  let ?sn = "mem_snapshotter [] :: (memstore, string list) snapshotter"
  have tx: "TransactionContext (ms ?sn) store_k1_c0 False = None"
    by (simp add: mem_defs)
  have k1: "GetInfo (ms ?sn) store_k1_c0 ''k1''
      = Inr (''1'', \<lparr>Info_Kind = KindActive, Info_Name = ''k1'', Info_Parent = [],
                     Info_Labels = remote_labels\<rparr>, zero_Usage)"
    by (simp add: mem_defs store_k1_c0_def)
  have c0: "GetInfo (ms ?sn) store_k1_c0 ''c0''
      = Inr (''2'', \<lparr>Info_Kind = KindCommitted, Info_Name = ''c0'', Info_Parent = [],
                     Info_Labels = Map.empty\<rparr>, \<lparr>Inodes = 7, Size = 700\<rparr>)"
    by (simp add: mem_defs store_k1_c0_def)
  from Usage_by_kind [OF tx k1, of "[]"]
  have a: "Usage ?sn ''k1'' store_k1_c0 []
      = DiskUsage (os ?sn) (filepath_Join [sn_root ?sn, ''snapshots'', ''1'', ''fs'']) []"
    by simp
  have p: "filepath_Join [sn_root ?sn, ''snapshots'', ''1'', ''fs''] = ''/var/lib/sn/snapshots/1/fs''"
    by (simp add: mem_snapshotter_def)
  have o: "os ?sn = mem_os" by (simp add: mem_snapshotter_def)
  from Usage_by_kind [OF tx c0, of "[]"]
  have b: "Usage ?sn ''c0'' store_k1_c0 [] = Inr \<lparr>Inodes = 7, Size = 700\<rparr>"
    by simp
  have l: "remote_labels targetSnapshotLabel = Some ''c1''"
    by (simp add: remote_labels_def)
  have d: "DiskUsage mem_os ''/var/lib/sn/snapshots/1/fs'' [] = Inr \<lparr>Inodes = 3, Size = 4096\<rparr>"
    by (simp add: mem_os_def)
  show ?thesis
    using tx k1 a b l d unfolding p o by simp
qed

end
